theory Spec2Isabelle
  imports Main
begin

section \<open>Data model\<close>

text \<open>
  The repository holds several revisions of one licensing backend. The Firestore
  revisions (\<^verbatim>\<open>src/unnamed/part_001\<close>, \<^verbatim>\<open>src/unnamed/part_002\<close>) store one document
  per account in the collection \<^verbatim>\<open>users\<close>; the first revision (\<^verbatim>\<open>src/server.js\<close>) keeps
  the accounts in a JSON file. The chat bot (\<^verbatim>\<open>src/unnamed/part_000\<close>) moderates the
  collection \<^verbatim>\<open>vouches\<close>.

  Timestamps (ISO strings made by \<^verbatim>\<open>new Date().toISOString()\<close>, Firestore server
  timestamps) are milliseconds since the epoch. A field that is \<^verbatim>\<open>null\<close> or absent
  from a document is \<open>None\<close>: the code tests such fields by truthiness only, which
  does not tell the two apart. Two fields are different. \<^verbatim>\<open>username\<close> and
  \<^verbatim>\<open>password\<close> are in every document, and \<open>None\<close> is the \<^verbatim>\<open>null\<close> that the
  signup of part\_002 stores when the request says so. \<^verbatim>\<open>email\<close> is queried by
  equality, which tells an absent field (\<open>Undefined\<close>) from a \<^verbatim>\<open>null\<close> one.
\<close>

type_synonym timestamp = int

text \<open>
  A field of a JSON request body that the code passes on without a truthiness test:
  the key is missing (\<^verbatim>\<open>undefined\<close> after destructuring), or its value is \<^verbatim>\<open>null\<close>,
  or a string. Firestore throws on \<^verbatim>\<open>undefined\<close> in a query or a document and accepts
  \<^verbatim>\<open>null\<close>. Values of other JSON types are outside the model.
\<close>

datatype json_field = Undefined | Null | Str string

text \<open>What a document holds for a field that was given: \<^verbatim>\<open>null\<close> is \<open>None\<close>.\<close>

fun field_value :: "json_field \<Rightarrow> string option" where
  "field_value (Str s) = Some s"
| "field_value _ = None"

record license =
  status :: "string option"
  package :: "string option"
  stripeCustomerId :: "string option"
  stripeSubscriptionId :: "string option"
  currentPeriodEnd :: "timestamp option"
  activatedAt :: "timestamp option"
  cancelledAt :: "timestamp option"
  sub_hwid :: "string option"
  lastHwidReset :: "timestamp option"
  lastPaymentDate :: "timestamp option"
  lastPaymentAmount :: "int option"
  paymentFailed :: "bool option"
  lastPaymentError :: "string option"

record stats =
  totalLogins :: "int option"
  lastLoginDate :: "timestamp option"
  accountAge :: "int option"

record user =
  uid :: string
  username :: "string option"
  password :: "string option"
  email :: json_field
  createdAt :: timestamp
  lastLogin :: "timestamp option"
  hwid :: "string option"
  hwidLockedAt :: "timestamp option"
  subscription :: "license option"
  stats :: "stats option"

text \<open>The collection \<^verbatim>\<open>users\<close>, in document order.\<close>

type_synonym users = "user list"

record response =
  http_status :: nat
  success :: "bool option"
  message :: string

definition json_reply :: "nat \<Rightarrow> bool \<Rightarrow> string \<Rightarrow> response" where
  "json_reply code ok msg = \<lparr>http_status = code, success = Some ok, message = msg\<rparr>"

text \<open>
  JavaScript truthiness of a value that is a string, \<^verbatim>\<open>null\<close> or \<^verbatim>\<open>undefined\<close>:
  only a non-empty string is truthy.
\<close>

definition truthy :: "string option \<Rightarrow> bool" where
  "truthy v = (case v of None \<Rightarrow> False | Some s \<Rightarrow> s \<noteq> [])"

section \<open>Account repository (part\_001)\<close>

text \<open>
  \<^verbatim>\<open>usersCollection.where('username', '==', username).limit(1).get()\<close>: the first
  document whose field equals the argument.
\<close>

definition getUserByUsername :: "users \<Rightarrow> string \<Rightarrow> user option" where
  "getUserByUsername db name = find (\<lambda>u. username u = Some name) db"

definition getUserById :: "users \<Rightarrow> string \<Rightarrow> user option" where
  "getUserById db userId = find (\<lambda>u. uid u = userId) db"

text \<open>\<^verbatim>\<open>usersCollection.where('subscription.stripeCustomerId', '==', customerId).limit(1)\<close>.\<close>

definition findByCustomerId :: "users \<Rightarrow> string \<Rightarrow> user option" where
  "findByCustomerId db customerId =
     find (\<lambda>u. case subscription u of None \<Rightarrow> False
                | Some s \<Rightarrow> stripeCustomerId s = Some customerId) db"

text \<open>
  \<^verbatim>\<open>usersCollection.doc(userId).update(updates)\<close>: a field-scoped write to one
  document; Firestore rejects it (the promise throws) when the document does not exist.
  The updates are a function on the document.
\<close>

definition updateUser :: "users \<Rightarrow> string \<Rightarrow> (user \<Rightarrow> user) \<Rightarrow> string + users" where
  "updateUser db userId updates =
     (case getUserById db userId of
        None \<Rightarrow> Inl ''NOT_FOUND''
      | Some _ \<Rightarrow> Inr (map (\<lambda>u. if uid u = userId then updates u else u) db))"

definition empty_license :: license where
  "empty_license = \<lparr>status = None, package = None, stripeCustomerId = None,
     stripeSubscriptionId = None, currentPeriodEnd = None, activatedAt = None,
     cancelledAt = None, sub_hwid = None, lastHwidReset = None, lastPaymentDate = None,
     lastPaymentAmount = None, paymentFailed = None, lastPaymentError = None\<rparr>"

text \<open>
  A write to a dotted path \<^verbatim>\<open>'subscription.x'\<close> changes that field of the nested map
  only, creating the map when the document has none.
\<close>

definition update_subscription :: "(license \<Rightarrow> license) \<Rightarrow> user \<Rightarrow> user" where
  "update_subscription f u =
     u\<lparr>subscription := Some (f (case subscription u of None \<Rightarrow> empty_license | Some s \<Rightarrow> s))\<rparr>"

text \<open>
  \<^verbatim>\<open>'stats.totalLogins': FieldValue.increment(1)\<close> and \<^verbatim>\<open>'stats.lastLoginDate'\<close>;
  incrementing an absent counter stores 1.
\<close>

definition update_login_stats :: "timestamp \<Rightarrow> user \<Rightarrow> user" where
  "update_login_stats now u =
     u\<lparr>stats := Some (case stats u of
          None \<Rightarrow> \<lparr>totalLogins = Some 1, lastLoginDate = Some now, accountAge = None\<rparr>
        | Some s \<Rightarrow>
            s\<lparr>totalLogins := Some (case totalLogins s of None \<Rightarrow> 1 | Some n \<Rightarrow> n + 1),
              lastLoginDate := Some now\<rparr>)\<rparr>"

definition createUser :: "string \<Rightarrow> string \<Rightarrow> string \<Rightarrow> timestamp \<Rightarrow> user" where
  "createUser newId name pw now =
     \<lparr>uid = newId, username = Some name, password = Some pw, email = Undefined,
      createdAt = now,
      lastLogin = Some now, hwid = None, hwidLockedAt = None,
      subscription = Some (empty_license\<lparr>status := Some ''inactive''\<rparr>),
      stats = Some \<lparr>totalLogins = Some 1, lastLoginDate = Some now, accountAge = Some 0\<rparr>\<rparr>"

section \<open>Client login (part\_001, \<^verbatim>\<open>POST /api/login\<close>)\<close>

definition is_active :: "user \<Rightarrow> bool" where
  "is_active u = (case subscription u of None \<Rightarrow> False | Some s \<Rightarrow> status s = Some ''active'')"

text \<open>The updates object the handler builds once the request is admitted.\<close>

definition login_updates :: "string \<Rightarrow> timestamp \<Rightarrow> user \<Rightarrow> user \<Rightarrow> user" where
  "login_updates h now found u =
     update_login_stats now
       ((if \<not> truthy (hwid found) then u\<lparr>hwid := Some h, hwidLockedAt := Some now\<rparr> else u)
          \<lparr>lastLogin := Some now\<rparr>)"

definition login ::
  "users \<Rightarrow> string option \<Rightarrow> string option \<Rightarrow> string option \<Rightarrow> timestamp \<Rightarrow> response \<times> users"
where
  "login db req_username req_password req_hwid now =
     (if \<not> truthy req_username \<or> \<not> truthy req_password \<or> \<not> truthy req_hwid
      then (json_reply 400 False ''Missing required fields'', db)
      else case (req_username, req_password, req_hwid) of
        (Some name, Some pw, Some h) \<Rightarrow>
          (case getUserByUsername db name of
             None \<Rightarrow> (json_reply 401 False ''Invalid credentials'', db)
           | Some found \<Rightarrow>
               if password found \<noteq> Some pw
               then (json_reply 401 False ''Invalid credentials'', db)
               else if \<not> is_active found
               then (json_reply 403 False ''No active license. Please purchase a subscription.'', db)
               else if truthy (hwid found) \<and> hwid found \<noteq> Some h
               then (json_reply 403 False ''Hardware mismatch. Contact administrator.'', db)
               else (case updateUser db (uid found) (login_updates h now found) of
                       Inl _ \<Rightarrow> (json_reply 500 False ''Server error'', db)
                     | Inr db' \<Rightarrow> (json_reply 200 True ''Login successful'', db')))
      | _ \<Rightarrow> (json_reply 400 False ''Missing required fields'', db))"

section \<open>Other account routes (part\_001)\<close>

text \<open>
  The session store is an external collaborator: a route behind \<^verbatim>\<open>requireAuth\<close> takes
  \<^verbatim>\<open>req.session.userId\<close> as an argument, and saving the session always succeeds.
  \<^verbatim>\<open>usersCollection.add\<close> stores the new document under an identifier Firestore
  generates, here the argument \<open>newId\<close>.
\<close>

definition signup ::
  "users \<Rightarrow> string option \<Rightarrow> string option \<Rightarrow> string \<Rightarrow> timestamp \<Rightarrow> response \<times> users"
where
  "signup db req_username req_password newId now =
     (if \<not> truthy req_username \<or> \<not> truthy req_password
      then (json_reply 400 False ''Missing required fields'', db)
      else case (req_username, req_password) of
        (Some name, Some pw) \<Rightarrow>
          if length name < 3
          then (json_reply 400 False ''Username must be at least 3 characters'', db)
          else if length pw < 6
          then (json_reply 400 False ''Password must be at least 6 characters'', db)
          else (case getUserByUsername db name of
                  Some _ \<Rightarrow> (json_reply 409 False ''Username already exists'', db)
                | None \<Rightarrow> (json_reply 200 True ''Account created successfully'',
                            db @ [createUser newId name pw now]))
      | _ \<Rightarrow> (json_reply 400 False ''Missing required fields'', db))"

definition web_login ::
  "users \<Rightarrow> string option \<Rightarrow> string option \<Rightarrow> timestamp \<Rightarrow> response \<times> users"
where
  "web_login db req_username req_password now =
     (if \<not> truthy req_username \<or> \<not> truthy req_password
      then (json_reply 400 False ''Missing credentials'', db)
      else case (req_username, req_password) of
        (Some name, Some pw) \<Rightarrow>
          (case getUserByUsername db name of
             None \<Rightarrow> (json_reply 401 False ''Invalid credentials'', db)
           | Some found \<Rightarrow>
               if password found \<noteq> Some pw
               then (json_reply 401 False ''Invalid credentials'', db)
               else (case updateUser db (uid found)
                            (\<lambda>u. u\<lparr>lastLogin := Some now,
                                   stats := Some (case stats u of
                                       None \<Rightarrow> \<lparr>totalLogins = None, lastLoginDate = Some now,
                                                accountAge = None\<rparr>
                                     | Some s \<Rightarrow> s\<lparr>lastLoginDate := Some now\<rparr>)\<rparr>) of
                       Inl _ \<Rightarrow> (json_reply 500 False ''Server error'', db)
                     | Inr db' \<Rightarrow> (json_reply 200 True ''Login successful'', db')))
      | _ \<Rightarrow> (json_reply 400 False ''Missing credentials'', db))"

text \<open>\<^verbatim>\<open>POST /api/reset-hwid\<close>, the administrative reset.\<close>

definition reset_hwid :: "users \<Rightarrow> string option \<Rightarrow> response \<times> users" where
  "reset_hwid db req_username =
     (case req_username of
        None \<Rightarrow> (json_reply 400 False ''Username required'', db)
      | Some name \<Rightarrow>
          if name = [] then (json_reply 400 False ''Username required'', db)
          else (case getUserByUsername db name of
                  None \<Rightarrow> (json_reply 404 False ''User not found'', db)
                | Some found \<Rightarrow>
                    if \<not> truthy (hwid found)
                    then (json_reply 400 False ''User is not hardware locked'', db)
                    else (case updateUser db (uid found)
                                 (\<lambda>u. u\<lparr>hwid := None, hwidLockedAt := None\<rparr>) of
                            Inl _ \<Rightarrow> (json_reply 500 False ''Server error'', db)
                          | Inr db' \<Rightarrow>
                              (json_reply 200 True (''Hardware lock reset for '' @ name), db'))))"

section \<open>Payment processor (part\_001)\<close>

text \<open>
  The objects a webhook event carries, with the fields the handlers read. The event's
  \<^verbatim>\<open>type\<close> tag and its \<^verbatim>\<open>data.object\<close> are one constructor each; \<open>OtherEvent\<close> is any
  type the switch does not list.
\<close>

record checkout_session =
  metadata_userId :: "string option"
  metadata_packageType :: "string option"
  customer :: "string option"
  session_subscription :: "string option"
  payment_intent :: "string option"
  mode :: "string option"

record stripe_subscription =
  sub_id :: string
  sub_customer :: string
  sub_status :: string
  current_period_end :: int

record invoice =
  inv_id :: string
  inv_customer :: string
  inv_subscription :: "string option"
  amount_paid :: int
  last_payment_error :: "string option"

datatype event =
    CheckoutSessionCompleted checkout_session
  | SubscriptionUpdated stripe_subscription
  | SubscriptionDeleted stripe_subscription
  | InvoicePaymentSucceeded invoice
  | InvoicePaymentFailed invoice
  | OtherEvent string

text \<open>
  The processor's SDK is outside the repository; the handlers take it as a parameter.
  \<open>constructEvent payload signature secret\<close> verifies the signature header over the raw
  body and only then yields the event; \<open>Inl\<close> is the exception it throws.
  \<open>subscriptions_retrieve\<close> yields the subscription's \<^verbatim>\<open>current_period_end\<close> (seconds),
  \<open>subscriptions_update\<close> tells whether the request to cancel at the period's end
  went through, \<open>subscriptions_cancel\<close> the same for an immediate cancellation,
  \<open>customers_create\<close> yields the new customer's identifier, and
  \<open>checkout_sessions_create\<close> tells whether a checkout session was created for the
  customer.
\<close>

record stripe_api =
  constructEvent :: "string \<Rightarrow> string option \<Rightarrow> string option \<Rightarrow> string + event"
  subscriptions_retrieve :: "string \<Rightarrow> string + int"
  subscriptions_update :: "string \<Rightarrow> bool"
  subscriptions_cancel :: "string \<Rightarrow> bool"
  customers_create :: "string \<Rightarrow> string + string"
  checkout_sessions_create :: "string \<Rightarrow> bool"

text \<open>
  The field writes of \<^verbatim>\<open>handleCheckoutSessionCompleted\<close>, as a function on the nested
  subscription map. A failed \<^verbatim>\<open>subscriptions.retrieve\<close> is caught and leaves
  \<^verbatim>\<open>currentPeriodEnd\<close> out of the updates.
\<close>

definition checkout_updates ::
  "stripe_api \<Rightarrow> checkout_session \<Rightarrow> string \<Rightarrow> timestamp \<Rightarrow> license \<Rightarrow> license"
where
  "checkout_updates api session packageType now s =
     (let base = s\<lparr>status := Some ''active'', package := Some packageType,
                   activatedAt := Some now, stripeCustomerId := customer session\<rparr>
      in if packageType = ''lifetime'' then base\<lparr>currentPeriodEnd := None\<rparr>
         else let with_id = base\<lparr>stripeSubscriptionId := session_subscription session\<rparr>
              in if truthy (session_subscription session)
                 then (case session_subscription session of
                         None \<Rightarrow> with_id
                       | Some subscriptionId \<Rightarrow>
                           (case subscriptions_retrieve api subscriptionId of
                              Inl _ \<Rightarrow> with_id
                            | Inr period_end \<Rightarrow>
                                with_id\<lparr>currentPeriodEnd := Some (period_end * 1000)\<rparr>))
                 else with_id)"

text \<open>
  \<^verbatim>\<open>handleCheckoutSessionCompleted\<close>: \<open>Inl\<close> is a thrown error, which the endpoint turns
  into a 500. A missing \<^verbatim>\<open>metadata.userId\<close> is logged and the handler returns. A missing
  \<^verbatim>\<open>metadata.packageType\<close> puts \<^verbatim>\<open>undefined\<close> into the updates, which Firestore's
  \<^verbatim>\<open>update\<close> rejects.
\<close>

definition handleCheckoutSessionCompleted ::
  "stripe_api \<Rightarrow> users \<Rightarrow> checkout_session \<Rightarrow> timestamp \<Rightarrow> string + users"
where
  "handleCheckoutSessionCompleted api db session now =
     (if \<not> truthy (metadata_userId session) then Inr db
      else case metadata_userId session of
        None \<Rightarrow> Inr db
      | Some userId \<Rightarrow>
          (case metadata_packageType session of
             None \<Rightarrow> Inl ''Cannot use undefined as a Firestore value''
           | Some packageType \<Rightarrow>
               updateUser db userId
                 (update_subscription (checkout_updates api session packageType now))))"

definition handleSubscriptionUpdated :: "users \<Rightarrow> stripe_subscription \<Rightarrow> string + users" where
  "handleSubscriptionUpdated db sub =
     (case findByCustomerId db (sub_customer sub) of
        None \<Rightarrow> Inr db
      | Some found \<Rightarrow>
          updateUser db (uid found)
            (update_subscription (\<lambda>s. s\<lparr>status := Some (sub_status sub),
               currentPeriodEnd := Some (current_period_end sub * 1000)\<rparr>)))"

definition handleSubscriptionDeleted ::
  "users \<Rightarrow> stripe_subscription \<Rightarrow> timestamp \<Rightarrow> string + users"
where
  "handleSubscriptionDeleted db sub now =
     (case findByCustomerId db (sub_customer sub) of
        None \<Rightarrow> Inr db
      | Some found \<Rightarrow>
          updateUser db (uid found)
            (update_subscription (\<lambda>s. s\<lparr>status := Some ''cancelled'',
               cancelledAt := Some now\<rparr>)))"

text \<open>\<^verbatim>\<open>handlePaymentSucceeded\<close> and \<^verbatim>\<open>handlePaymentFailed\<close> only log.\<close>

definition handlePaymentSucceeded :: "users \<Rightarrow> invoice \<Rightarrow> string + users" where
  "handlePaymentSucceeded db paid = Inr db"

definition handlePaymentFailed :: "users \<Rightarrow> invoice \<Rightarrow> string + users" where
  "handlePaymentFailed db failed = Inr db"

fun dispatch :: "stripe_api \<Rightarrow> users \<Rightarrow> event \<Rightarrow> timestamp \<Rightarrow> string + users" where
  "dispatch api db (CheckoutSessionCompleted session) now =
     handleCheckoutSessionCompleted api db session now"
| "dispatch api db (SubscriptionUpdated sub) now = handleSubscriptionUpdated db sub"
| "dispatch api db (SubscriptionDeleted sub) now = handleSubscriptionDeleted db sub now"
| "dispatch api db (InvoicePaymentSucceeded paid) now = handlePaymentSucceeded db paid"
| "dispatch api db (InvoicePaymentFailed failed) now = handlePaymentFailed db failed"
| "dispatch api db (OtherEvent t) now = Inr db"

text \<open>
  \<^verbatim>\<open>POST /api/stripe/webhook\<close>: the raw body, the \<^verbatim>\<open>stripe-signature\<close> header and
  \<^verbatim>\<open>process.env.STRIPE_WEBHOOK_SECRET\<close>. The event exists only as the result of a
  successful \<^verbatim>\<open>constructEvent\<close>.
\<close>

definition webhook ::
  "stripe_api \<Rightarrow> string option \<Rightarrow> users \<Rightarrow> string \<Rightarrow> string option \<Rightarrow> timestamp \<Rightarrow> response \<times> users"
where
  "webhook api secret db raw_body sig now =
     (case constructEvent api raw_body sig secret of
        Inl err \<Rightarrow>
          (\<lparr>http_status = 400, success = None, message = ''Webhook Error: '' @ err\<rparr>, db)
      | Inr ev \<Rightarrow>
          (case dispatch api db ev now of
             Inl _ \<Rightarrow>
               (\<lparr>http_status = 500, success = None, message = ''Webhook handler failed''\<rparr>, db)
           | Inr db' \<Rightarrow> (\<lparr>http_status = 200, success = None, message = ''received''\<rparr>, db')))"

text \<open>
  \<^verbatim>\<open>POST /api/stripe/create-checkout-session\<close>: its one write stores a new customer
  id, before the checkout session is requested. The answer carries the session's URL,
  which the model leaves out.
\<close>

definition session_reply :: "stripe_api \<Rightarrow> string \<Rightarrow> response" where
  "session_reply api customerId =
     (if checkout_sessions_create api customerId
      then json_reply 200 True ''checkout session created''
      else json_reply 500 False ''Failed to create checkout session'')"

definition create_checkout_session ::
  "stripe_api \<Rightarrow> users \<Rightarrow> string option \<Rightarrow> string option \<Rightarrow> string option \<Rightarrow> response \<times> users"
where
  "create_checkout_session api db session_userId priceId packageType =
     (if \<not> truthy session_userId then (json_reply 401 False ''Unauthorized'', db)
      else if \<not> truthy priceId \<or> \<not> truthy packageType
      then (json_reply 400 False ''Missing required fields'', db)
      else case session_userId of
        None \<Rightarrow> (json_reply 401 False ''Unauthorized'', db)
      | Some userId \<Rightarrow>
          (case getUserById db userId of
             None \<Rightarrow> (json_reply 404 False ''User not found'', db)
           | Some found \<Rightarrow>
               (case (case subscription found of None \<Rightarrow> None
                      | Some s \<Rightarrow> if truthy (stripeCustomerId s) then stripeCustomerId s
                                 else None) of
                  Some customerId \<Rightarrow> (session_reply api customerId, db)
                | None \<Rightarrow>
                    (case customers_create api (uid found) of
                       Inl _ \<Rightarrow> (json_reply 500 False ''Failed to create checkout session'', db)
                     | Inr customerId \<Rightarrow>
                         (case updateUser db (uid found)
                                 (update_subscription
                                    (\<lambda>s. s\<lparr>stripeCustomerId := Some customerId\<rparr>)) of
                            Inl _ \<Rightarrow>
                              (json_reply 500 False ''Failed to create checkout session'', db)
                          | Inr db' \<Rightarrow> (session_reply api customerId, db'))))))"

text \<open>\<^verbatim>\<open>POST /api/stripe/cancel-subscription\<close>.\<close>

definition cancel_subscription ::
  "stripe_api \<Rightarrow> users \<Rightarrow> string option \<Rightarrow> timestamp \<Rightarrow> response \<times> users"
where
  "cancel_subscription api db session_userId now =
     (case session_userId of
        None \<Rightarrow> (json_reply 401 False ''Unauthorized'', db)
      | Some userId \<Rightarrow>
          if userId = [] then (json_reply 401 False ''Unauthorized'', db)
          else (case getUserById db userId of
                  None \<Rightarrow> (json_reply 404 False ''User not found'', db)
                | Some found \<Rightarrow>
                    (case (case subscription found of None \<Rightarrow> None
                           | Some s \<Rightarrow> stripeSubscriptionId s) of
                       None \<Rightarrow> (json_reply 400 False ''No active subscription to cancel'', db)
                     | Some subscriptionId \<Rightarrow>
                         if subscriptionId = []
                         then (json_reply 400 False ''No active subscription to cancel'', db)
                         else if \<not> subscriptions_update api subscriptionId
                         then (json_reply 500 False ''Failed to cancel subscription'', db)
                         else (case updateUser db (uid found)
                                      (update_subscription
                                         (\<lambda>s. s\<lparr>status := Some ''cancelled'',
                                                cancelledAt := Some now\<rparr>)) of
                                 Inl _ \<Rightarrow>
                                   (json_reply 500 False ''Failed to cancel subscription'', db)
                               | Inr db' \<Rightarrow>
                                   (json_reply 200 True
                                      ''Subscription cancelled. Access will continue until the end of the billing period.'',
                                    db')))))"

section \<open>The later revision (part\_002)\<close>

text \<open>
  The first file of \<^verbatim>\<open>src/unnamed/part_002\<close> works on the same collection. Its routes
  and handlers carry the suffix \<open>_p2\<close> here. Its \<^verbatim>\<open>handleSubscriptionUpdated\<close> and
  \<^verbatim>\<open>handleSubscriptionDeleted\<close> make the writes of part\_001's and rethrow what they
  catch, so the definitions above stand for them too.
\<close>

text \<open>
  \<^verbatim>\<open>POST /api/signup\<close>: no checks of the fields at all. A field missing from the
  body reaches Firestore as \<^verbatim>\<open>undefined\<close>, which \<^verbatim>\<open>where\<close> and \<^verbatim>\<open>add\<close> reject, and
  the route answers 500: for the username at the first query, for the email at the
  second, for the password when the document is added. A \<^verbatim>\<open>null\<close> is accepted: the
  query compares with it, and the document stores it.
\<close>

definition newUser_p2 ::
  "string \<Rightarrow> string option \<Rightarrow> json_field \<Rightarrow> string option \<Rightarrow> timestamp \<Rightarrow> user"
where
  "newUser_p2 newId name mail pw now =
     \<lparr>uid = newId, username = name, password = pw, email = mail, createdAt = now,
      lastLogin = None, hwid = None, hwidLockedAt = None,
      subscription = Some (empty_license\<lparr>status := Some ''none''\<rparr>),
      stats = None\<rparr>"

definition signup_p2 ::
  "users \<Rightarrow> json_field \<Rightarrow> json_field \<Rightarrow> json_field \<Rightarrow> string \<Rightarrow> timestamp
     \<Rightarrow> response \<times> users"
where
  "signup_p2 db req_username req_email req_password newId now =
     (if req_username = Undefined then (json_reply 500 False ''Server error'', db)
      else case find (\<lambda>u. username u = field_value req_username) db of
        Some _ \<Rightarrow> (json_reply 200 False ''Username already taken'', db)
      | None \<Rightarrow>
          if req_email = Undefined then (json_reply 500 False ''Server error'', db)
          else (case find (\<lambda>u. email u = req_email) db of
                  Some _ \<Rightarrow> (json_reply 200 False ''Email already registered'', db)
                | None \<Rightarrow>
                    if req_password = Undefined
                    then (json_reply 500 False ''Server error'', db)
                    else (json_reply 200 True ''Account created successfully'',
                          db @ [newUser_p2 newId (field_value req_username) req_email
                                  (field_value req_password) now])))"

text \<open>
  \<^verbatim>\<open>POST /api/reset-hwid\<close>, the self-service reset of the signed-in account. The
  cooldown compares \<^verbatim>\<open>(Date.now() - lastReset.toDate()) / (1000 * 60 * 60 * 24)\<close> with 7;
  the number of days left, which the refusal prints, is not part of the message here.
\<close>

definition reset_hwid_p2 :: "users \<Rightarrow> string option \<Rightarrow> timestamp \<Rightarrow> response \<times> users" where
  "reset_hwid_p2 db session_userId now =
     (case session_userId of
        None \<Rightarrow> (json_reply 401 False ''Not authenticated'', db)
      | Some userId \<Rightarrow>
          if userId = [] then (json_reply 401 False ''Not authenticated'', db)
          else (case getUserById db userId of
                  None \<Rightarrow> (json_reply 404 False ''User not found'', db)
                | Some userData \<Rightarrow>
                    if \<not> is_active userData
                    then (json_reply 200 False ''No active subscription'', db)
                    else (case subscription userData of
                            None \<Rightarrow> (json_reply 200 False ''No active subscription'', db)
                          | Some s \<Rightarrow>
                              if (case lastHwidReset s of None \<Rightarrow> False
                                  | Some lastReset \<Rightarrow> now - lastReset < 7 * (1000 * 60 * 60 * 24))
                              then (json_reply 200 False
                                      ''HWID can only be reset once every 7 days.'', db)
                              else (case updateUser db userId
                                           (update_subscription
                                              (\<lambda>s. s\<lparr>sub_hwid := None,
                                                     lastHwidReset := Some now\<rparr>)) of
                                      Inl _ \<Rightarrow> (json_reply 500 False ''Server error'', db)
                                    | Inr db' \<Rightarrow>
                                        (json_reply 200 True ''HWID reset successfully'', db')))))"

text \<open>
  \<^verbatim>\<open>handleCheckoutSessionCompleted\<close> of part\_002: no check of \<^verbatim>\<open>metadata.userId\<close>, and
  a failed \<^verbatim>\<open>subscriptions.retrieve\<close> (also of a session without a subscription) is
  rethrown before anything is written.
\<close>

definition handleCheckoutSessionCompleted_p2 ::
  "stripe_api \<Rightarrow> users \<Rightarrow> checkout_session \<Rightarrow> timestamp \<Rightarrow> string + users"
where
  "handleCheckoutSessionCompleted_p2 api db session now =
     (case metadata_packageType session of
        None \<Rightarrow> Inl ''Cannot use undefined as a Firestore value''
      | Some packageType \<Rightarrow>
          (let base = (\<lambda>s. s\<lparr>status := Some ''active'', package := Some packageType,
                              stripeCustomerId := customer session, activatedAt := Some now\<rparr>)
           in if packageType = ''lifetime''
              then (case metadata_userId session of
                      None \<Rightarrow> Inl ''not a valid resource path''
                    | Some userId \<Rightarrow>
                        updateUser db userId
                          (update_subscription (\<lambda>s. (base s)\<lparr>currentPeriodEnd := None\<rparr>)))
              else (case session_subscription session of
                      None \<Rightarrow> Inl ''No such subscription''
                    | Some subscriptionId \<Rightarrow>
                        (case subscriptions_retrieve api subscriptionId of
                           Inl err \<Rightarrow> Inl err
                         | Inr period_end \<Rightarrow>
                             (case metadata_userId session of
                                None \<Rightarrow> Inl ''not a valid resource path''
                              | Some userId \<Rightarrow>
                                  updateUser db userId
                                    (update_subscription
                                       (\<lambda>s. (base s)\<lparr>stripeSubscriptionId := Some subscriptionId,
                                              currentPeriodEnd := Some (period_end * 1000)\<rparr>)))))))"

text \<open>
  The invoice handlers of part\_002 write payment metadata and swallow every error.
  \<^verbatim>\<open>lastPaymentAmount\<close> is \<^verbatim>\<open>amount_paid / 100\<close> in the source; the model keeps the
  amount in cents.
\<close>

definition handlePaymentSucceeded_p2 :: "users \<Rightarrow> invoice \<Rightarrow> timestamp \<Rightarrow> users" where
  "handlePaymentSucceeded_p2 db paid now =
     (if truthy (inv_subscription paid)
      then (case findByCustomerId db (inv_customer paid) of
              None \<Rightarrow> db
            | Some found \<Rightarrow>
                (case updateUser db (uid found)
                        (update_subscription
                           (\<lambda>s. s\<lparr>lastPaymentDate := Some now,
                                  lastPaymentAmount := Some (amount_paid paid)\<rparr>)) of
                   Inl _ \<Rightarrow> db
                 | Inr db' \<Rightarrow> db'))
      else db)"

definition handlePaymentFailed_p2 :: "users \<Rightarrow> invoice \<Rightarrow> users" where
  "handlePaymentFailed_p2 db failed =
     (if truthy (inv_subscription failed)
      then (case findByCustomerId db (inv_customer failed) of
              None \<Rightarrow> db
            | Some found \<Rightarrow>
                (case updateUser db (uid found)
                        (update_subscription
                           (\<lambda>s. s\<lparr>paymentFailed := Some True,
                                  lastPaymentError :=
                                    Some (if truthy (last_payment_error failed)
                                          then (case last_payment_error failed of
                                                  None \<Rightarrow> ''Payment failed'' | Some m \<Rightarrow> m)
                                          else ''Payment failed'')\<rparr>)) of
                   Inl _ \<Rightarrow> db
                 | Inr db' \<Rightarrow> db'))
      else db)"

fun dispatch_p2 :: "stripe_api \<Rightarrow> users \<Rightarrow> event \<Rightarrow> timestamp \<Rightarrow> string + users" where
  "dispatch_p2 api db (CheckoutSessionCompleted session) now =
     handleCheckoutSessionCompleted_p2 api db session now"
| "dispatch_p2 api db (SubscriptionUpdated sub) now = handleSubscriptionUpdated db sub"
| "dispatch_p2 api db (SubscriptionDeleted sub) now = handleSubscriptionDeleted db sub now"
| "dispatch_p2 api db (InvoicePaymentSucceeded paid) now =
     Inr (handlePaymentSucceeded_p2 db paid now)"
| "dispatch_p2 api db (InvoicePaymentFailed failed) now = Inr (handlePaymentFailed_p2 db failed)"
| "dispatch_p2 api db (OtherEvent t) now = Inr db"

definition webhook_p2 ::
  "stripe_api \<Rightarrow> string option \<Rightarrow> users \<Rightarrow> string \<Rightarrow> string option \<Rightarrow> timestamp \<Rightarrow> response \<times> users"
where
  "webhook_p2 api secret db raw_body sig now =
     (case constructEvent api raw_body sig secret of
        Inl err \<Rightarrow>
          (\<lparr>http_status = 400, success = None, message = ''Webhook Error: '' @ err\<rparr>, db)
      | Inr ev \<Rightarrow>
          (case dispatch_p2 api db ev now of
             Inl _ \<Rightarrow>
               (\<lparr>http_status = 500, success = None, message = ''Webhook handler failed''\<rparr>, db)
           | Inr db' \<Rightarrow> (\<lparr>http_status = 200, success = None, message = ''received''\<rparr>, db')))"

text \<open>
  \<^verbatim>\<open>POST /api/stripe/create-checkout-session\<close> of part\_002: reading the fields of a
  document that does not exist throws, and the route answers 500.
\<close>

definition create_checkout_session_p2 ::
  "stripe_api \<Rightarrow> users \<Rightarrow> string option \<Rightarrow> response \<times> users"
where
  "create_checkout_session_p2 api db session_userId =
     (case session_userId of
        None \<Rightarrow> (json_reply 401 False ''Not authenticated'', db)
      | Some userId \<Rightarrow>
          if userId = [] then (json_reply 401 False ''Not authenticated'', db)
          else (case getUserById db userId of
                  None \<Rightarrow> (json_reply 500 False ''Failed to create checkout session'', db)
                | Some userData \<Rightarrow>
                    (case (case subscription userData of None \<Rightarrow> None
                           | Some s \<Rightarrow> if truthy (stripeCustomerId s) then stripeCustomerId s
                                      else None) of
                       Some customerId \<Rightarrow> (session_reply api customerId, db)
                     | None \<Rightarrow>
                         (case customers_create api userId of
                            Inl _ \<Rightarrow>
                              (json_reply 500 False ''Failed to create checkout session'', db)
                          | Inr customerId \<Rightarrow>
                              (case updateUser db userId
                                      (update_subscription
                                         (\<lambda>s. s\<lparr>stripeCustomerId := Some customerId\<rparr>)) of
                                 Inl _ \<Rightarrow>
                                   (json_reply 500 False ''Failed to create checkout session'',
                                    db)
                               | Inr db' \<Rightarrow> (session_reply api customerId, db'))))))"

section \<open>The revision before payments (part\_002, second file)\<close>

text \<open>
  The second file of \<^verbatim>\<open>src/unnamed/part_002\<close> (from line 738) is the Firestore revision
  without a payment processor: its accounts have no \<^verbatim>\<open>subscription\<close>, and its client
  login goes from the credentials straight to the HWID lock. Its definitions carry the
  suffix \<open>_p2b\<close>.
\<close>

definition createUser_p2b :: "string \<Rightarrow> string \<Rightarrow> string \<Rightarrow> timestamp \<Rightarrow> user" where
  "createUser_p2b newId name pw now =
     \<lparr>uid = newId, username = Some name, password = Some pw, email = Undefined,
      createdAt = now, lastLogin = None, hwid = None, hwidLockedAt = None,
      subscription = None, stats = None\<rparr>"

definition login_p2b ::
  "users \<Rightarrow> string option \<Rightarrow> string option \<Rightarrow> string option \<Rightarrow> timestamp \<Rightarrow> response \<times> users"
where
  "login_p2b db req_username req_password req_hwid now =
     (if \<not> truthy req_username \<or> \<not> truthy req_password \<or> \<not> truthy req_hwid
      then (json_reply 400 False ''Missing required fields'', db)
      else case (req_username, req_password, req_hwid) of
        (Some name, Some pw, Some h) \<Rightarrow>
          (case getUserByUsername db name of
             None \<Rightarrow> (json_reply 401 False ''Invalid credentials'', db)
           | Some found \<Rightarrow>
               if password found \<noteq> Some pw
               then (json_reply 401 False ''Invalid credentials'', db)
               else if truthy (hwid found) \<and> hwid found \<noteq> Some h
               then (json_reply 403 False ''Hardware mismatch. Contact administrator.'', db)
               else if \<not> truthy (hwid found)
               then (case updateUser db (uid found)
                            (\<lambda>u. u\<lparr>hwid := Some h, hwidLockedAt := Some now\<rparr>) of
                       Inl _ \<Rightarrow> (json_reply 500 False ''Server error'', db)
                     | Inr db' \<Rightarrow> (json_reply 200 True ''Login successful'', db'))
               else (json_reply 200 True ''Login successful'', db))
      | _ \<Rightarrow> (json_reply 400 False ''Missing required fields'', db))"

section \<open>Vouch moderation (part\_000)\<close>

record vouch =
  vouch_id :: string
  authorId :: string
  targetUserId :: string
  rating :: int
  vouch_message :: string
  approved :: bool
  featured :: bool
  rejected :: bool
  approvedBy :: "string option"
  rejectedBy :: "string option"
  rejectionReason :: "string option"

type_synonym vouches = "vouch list"

definition get_vouch :: "vouches \<Rightarrow> string \<Rightarrow> vouch option" where
  "get_vouch vs vouchId = find (\<lambda>v. vouch_id v = vouchId) vs"

definition update_vouch :: "vouches \<Rightarrow> string \<Rightarrow> (vouch \<Rightarrow> vouch) \<Rightarrow> vouches" where
  "update_vouch vs vouchId f = map (\<lambda>v. if vouch_id v = vouchId then f v else v) vs"

text \<open>
  The \<^verbatim>\<open>!feature\<close> command: whether the member may manage messages, and the words after
  the command. The result is the bot's reply (without its emoji; the embed's title when
  the toggle went through) and the collection.
\<close>

definition feature_command :: "vouches \<Rightarrow> bool \<Rightarrow> string list \<Rightarrow> string \<times> vouches" where
  "feature_command vs may_manage args =
     (if \<not> may_manage then (''You do not have permission to feature vouches.'', vs)
      else case args of
        [] \<Rightarrow> (''Please provide a vouch ID. Usage: `!feature <vouchId>`'', vs)
      | vouchId # _ \<Rightarrow>
          if vouchId = []
          then (''Please provide a vouch ID. Usage: `!feature <vouchId>`'', vs)
          else (case get_vouch vs vouchId of
                  None \<Rightarrow> (''Vouch not found.'', vs)
                | Some vouchData \<Rightarrow>
                    if \<not> approved vouchData
                    then (''Vouch must be approved before it can be featured.'', vs)
                    else (let newFeaturedState = \<not> featured vouchData
                          in (if newFeaturedState then ''Vouch Featured'' else ''Vouch Unfeatured'',
                              update_vouch vs vouchId
                                (\<lambda>v. v\<lparr>featured := newFeaturedState\<rparr>)))))"

definition approve_command ::
  "vouches \<Rightarrow> bool \<Rightarrow> string \<Rightarrow> string list \<Rightarrow> string \<times> vouches"
where
  "approve_command vs may_manage moderator args =
     (if \<not> may_manage then (''You do not have permission to approve vouches.'', vs)
      else case args of
        [] \<Rightarrow> (''Please provide a vouch ID. Usage: `!approve <vouchId>`'', vs)
      | vouchId # _ \<Rightarrow>
          if vouchId = []
          then (''Please provide a vouch ID. Usage: `!approve <vouchId>`'', vs)
          else (case get_vouch vs vouchId of
                  None \<Rightarrow> (''Vouch not found.'', vs)
                | Some _ \<Rightarrow>
                    (''Vouch Approved'',
                     update_vouch vs vouchId
                       (\<lambda>v. v\<lparr>approved := True, approvedBy := Some moderator\<rparr>))))"

section \<open>The first revision (server.js)\<close>

text \<open>
  \<^verbatim>\<open>src/server.js\<close> keeps the accounts as an array in a JSON file: \<^verbatim>\<open>getUsers\<close> reads
  it, a handler changes the object \<^verbatim>\<open>find\<close> returned, and \<^verbatim>\<open>saveUsers\<close> writes the array
  back. Its definitions carry the suffix \<open>_js\<close>.
\<close>

record file_subscription =
  fs_package :: "string option"
  fs_status :: string
  fs_customerId :: "string option"
  fs_subscriptionId :: "string option"
  fs_paymentIntentId :: "string option"
  fs_mode :: "string option"
  fs_createdAt :: timestamp
  fs_cancelledAt :: "timestamp option"

record file_user =
  fu_id :: string
  fu_username :: string
  fu_password :: string
  fu_createdAt :: timestamp
  fu_hwid :: "string option"
  fu_hwidLockedAt :: "timestamp option"
  fu_subscription :: "file_subscription option"

text \<open>Changing, in place, the element that \<^verbatim>\<open>users.find(P)\<close> returns.\<close>

fun update_first :: "('a \<Rightarrow> bool) \<Rightarrow> ('a \<Rightarrow> 'a) \<Rightarrow> 'a list \<Rightarrow> 'a list" where
  "update_first P f [] = []"
| "update_first P f (x # xs) = (if P x then f x # xs else x # update_first P f xs)"

text \<open>\<^verbatim>\<open>POST /api/login\<close>; every answer is sent with \<^verbatim>\<open>res.json\<close>, status 200.\<close>

definition login_js ::
  "file_user list \<Rightarrow> string option \<Rightarrow> string option \<Rightarrow> string option \<Rightarrow> timestamp
     \<Rightarrow> response \<times> file_user list"
where
  "login_js users req_username req_password req_hwid now =
     (if \<not> truthy req_username \<or> \<not> truthy req_password
      then (json_reply 200 False ''Username and password are required'', users)
      else case (req_username, req_password) of
        (Some name, Some pw) \<Rightarrow>
          (case find (\<lambda>u. fu_username u = name \<and> fu_password u = pw) users of
             None \<Rightarrow> (json_reply 200 False ''Invalid username or password'', users)
           | Some found \<Rightarrow>
               (case req_hwid of
                  None \<Rightarrow> (json_reply 200 True ''Login successful'', users)
                | Some h \<Rightarrow>
                    if h = [] then (json_reply 200 True ''Login successful'', users)
                    else if \<not> truthy (fu_hwid found)
                    then (json_reply 200 True
                            ''Login successful - Account locked to this computer'',
                          update_first (\<lambda>u. fu_username u = name \<and> fu_password u = pw)
                            (\<lambda>u. u\<lparr>fu_hwid := Some h, fu_hwidLockedAt := Some now\<rparr>) users)
                    else if fu_hwid found \<noteq> Some h
                    then (json_reply 200 False
                            ''Hardware ID mismatch - This account is locked to another computer'',
                          users)
                    else (json_reply 200 True ''Login successful'', users)))
      | _ \<Rightarrow> (json_reply 200 False ''Username and password are required'', users))"

text \<open>\<^verbatim>\<open>POST /api/reset-hwid\<close>: \<^verbatim>\<open>delete user.hwid; delete user.hwidLockedAt\<close>.\<close>

definition reset_hwid_js :: "file_user list \<Rightarrow> string option \<Rightarrow> response \<times> file_user list" where
  "reset_hwid_js users req_username =
     (case req_username of
        None \<Rightarrow> (json_reply 200 False ''Username is required'', users)
      | Some name \<Rightarrow>
          if name = [] then (json_reply 200 False ''Username is required'', users)
          else (case find (\<lambda>u. fu_username u = name) users of
                  None \<Rightarrow> (json_reply 200 False ''User not found'', users)
                | Some found \<Rightarrow>
                    if \<not> truthy (fu_hwid found)
                    then (json_reply 200 False ''Account is not locked to any hardware'', users)
                    else (json_reply 200 True ''Hardware ID lock removed successfully'',
                          update_first (\<lambda>u. fu_username u = name)
                            (\<lambda>u. u\<lparr>fu_hwid := None, fu_hwidLockedAt := None\<rparr>) users)))"

text \<open>
  \<^verbatim>\<open>POST /api/stripe/webhook\<close>: a failed verification is \<^verbatim>\<open>res.sendStatus(400)\<close>; a
  completed checkout replaces the account's whole \<^verbatim>\<open>subscription\<close> object.
\<close>

definition webhook_js ::
  "stripe_api \<Rightarrow> string option \<Rightarrow> file_user list \<Rightarrow> string \<Rightarrow> string option \<Rightarrow> timestamp
     \<Rightarrow> response \<times> file_user list"
where
  "webhook_js api secret users raw_body sig now =
     (case constructEvent api raw_body sig secret of
        Inl err \<Rightarrow> (\<lparr>http_status = 400, success = None, message = ''Bad Request''\<rparr>, users)
      | Inr ev \<Rightarrow>
          (\<lparr>http_status = 200, success = None, message = ''received''\<rparr>,
           case ev of
             CheckoutSessionCompleted session \<Rightarrow>
               update_first (\<lambda>u. Some (fu_id u) = metadata_userId session)
                 (\<lambda>u. u\<lparr>fu_subscription := Some
                    \<lparr>fs_package = metadata_packageType session, fs_status = ''active'',
                     fs_customerId = customer session,
                     fs_subscriptionId =
                       (if truthy (session_subscription session)
                        then session_subscription session else None),
                     fs_paymentIntentId =
                       (if truthy (payment_intent session) then payment_intent session else None),
                     fs_mode = mode session, fs_createdAt = now, fs_cancelledAt = None\<rparr>\<rparr>)
                 users
           | SubscriptionDeleted sub \<Rightarrow>
               update_first
                 (\<lambda>u. case fu_subscription u of None \<Rightarrow> False
                       | Some s \<Rightarrow> fs_subscriptionId s = Some (sub_id sub))
                 (\<lambda>u. u\<lparr>fu_subscription :=
                    map_option (\<lambda>s. s\<lparr>fs_status := ''cancelled'', fs_cancelledAt := Some now\<rparr>)
                      (fu_subscription u)\<rparr>)
                 users
           | _ \<Rightarrow> users))"

text \<open>
  \<^verbatim>\<open>POST /api/stripe/cancel-subscription\<close>: \<^verbatim>\<open>req.session.user.id\<close> when a user is
  signed in. The route writes nothing; the account changes when the processor's
  \<^verbatim>\<open>customer.subscription.deleted\<close> event arrives.
\<close>

definition cancel_subscription_js ::
  "stripe_api \<Rightarrow> file_user list \<Rightarrow> string option \<Rightarrow> response \<times> file_user list"
where
  "cancel_subscription_js api users session_user =
     (case session_user of
        None \<Rightarrow> (json_reply 200 False ''Not logged in'', users)
      | Some userId \<Rightarrow>
          (case find (\<lambda>u. fu_id u = userId) users of
             None \<Rightarrow> (json_reply 200 False ''No active subscription found'', users)
           | Some found \<Rightarrow>
               (case fu_subscription found of
                  None \<Rightarrow> (json_reply 200 False ''No active subscription found'', users)
                | Some s \<Rightarrow>
                    if fs_mode s = Some ''payment'' \<or> fs_package s = Some ''lifetime''
                    then (json_reply 200 False
                            ''Lifetime subscriptions cannot be cancelled. This is a one-time payment.'',
                          users)
                    else if \<not> truthy (fs_subscriptionId s)
                    then (json_reply 200 False ''No subscription ID found'', users)
                    else (case fs_subscriptionId s of
                            None \<Rightarrow> (json_reply 200 False ''No subscription ID found'', users)
                          | Some subscriptionId \<Rightarrow>
                              if subscriptions_cancel api subscriptionId
                              then (json_reply 200 True ''Subscription cancelled successfully'',
                                    users)
                              else (json_reply 200 False ''Failed to cancel subscription'',
                                    users)))))"

text \<open>
  \<^verbatim>\<open>String.prototype.toLowerCase\<close> on the letters A to Z; a string here is a list of
  bytes, and the bytes of other characters stay as they are.
\<close>

definition lower_char :: "char \<Rightarrow> char" where
  "lower_char c =
     (let n = (of_char c :: nat) in if 65 \<le> n \<and> n \<le> 90 then char_of (n + 32) else c)"

definition toLowerCase :: "string \<Rightarrow> string" where
  "toLowerCase s = map lower_char s"

text \<open>
  \<^verbatim>\<open>POST /api/signup\<close>: the only place where two usernames are compared without
  regard to case. The new account's id is \<^verbatim>\<open>Date.now().toString()\<close>, here \<open>newId\<close>.
\<close>

definition signup_js ::
  "file_user list \<Rightarrow> string option \<Rightarrow> string option \<Rightarrow> string \<Rightarrow> timestamp
     \<Rightarrow> response \<times> file_user list"
where
  "signup_js users req_username req_password newId now =
     (if \<not> truthy req_username \<or> \<not> truthy req_password
      then (json_reply 200 False ''Username and password are required'', users)
      else case (req_username, req_password) of
        (Some name, Some pw) \<Rightarrow>
          if length name < 3
          then (json_reply 200 False ''Username must be at least 3 characters'', users)
          else if length pw < 6
          then (json_reply 200 False ''Password must be at least 6 characters'', users)
          else if list_ex (\<lambda>u. toLowerCase (fu_username u) = toLowerCase name) users
          then (json_reply 200 False ''Username already taken'', users)
          else (json_reply 200 True ''Account created successfully!'',
                users @ [\<lparr>fu_id = newId, fu_username = name, fu_password = pw,
                          fu_createdAt = now, fu_hwid = None, fu_hwidLockedAt = None,
                          fu_subscription = None\<rparr>])
      | _ \<Rightarrow> (json_reply 200 False ''Username and password are required'', users))"

section \<open>Operations of the Firestore revisions\<close>

text \<open>
  Every route and webhook of part\_001 and part\_002 that writes to the collection
  \<^verbatim>\<open>users\<close>, as one request each; \<open>perform\<close> is the collection after the request.
\<close>

datatype operation =
    Login "string option" "string option" "string option" timestamp
  | WebLogin "string option" "string option" timestamp
  | Signup "string option" "string option" string timestamp
  | ResetHwid "string option"
  | Webhook string "string option" timestamp
  | CreateCheckoutSession "string option" "string option" "string option"
  | CancelSubscription "string option" timestamp
  | SignupP2 json_field json_field json_field string timestamp
  | ResetHwidP2 "string option" timestamp
  | WebhookP2 string "string option" timestamp
  | CreateCheckoutSessionP2 "string option"

fun perform :: "stripe_api \<Rightarrow> string option \<Rightarrow> users \<Rightarrow> operation \<Rightarrow> users" where
  "perform api secret db (Login n p h now) = snd (login db n p h now)"
| "perform api secret db (WebLogin n p now) = snd (web_login db n p now)"
| "perform api secret db (Signup n p newId now) = snd (signup db n p newId now)"
| "perform api secret db (ResetHwid n) = snd (reset_hwid db n)"
| "perform api secret db (Webhook body sig now) = snd (webhook api secret db body sig now)"
| "perform api secret db (CreateCheckoutSession i price pkg) =
     snd (create_checkout_session api db i price pkg)"
| "perform api secret db (CancelSubscription i now) = snd (cancel_subscription api db i now)"
| "perform api secret db (SignupP2 n e p newId now) = snd (signup_p2 db n e p newId now)"
| "perform api secret db (ResetHwidP2 i now) = snd (reset_hwid_p2 db i now)"
| "perform api secret db (WebhookP2 body sig now) = snd (webhook_p2 api secret db body sig now)"
| "perform api secret db (CreateCheckoutSessionP2 i) = snd (create_checkout_session_p2 api db i)"

text \<open>The binding invariant of one account.\<close>

definition hwid_consistent :: "user \<Rightarrow> bool" where
  "hwid_consistent u = ((hwid u \<noteq> None) = (hwidLockedAt u \<noteq> None))"




section \<open>Sample data\<close>

text \<open>
  A processor that accepts a signature header equal to the shared secret, and reads two
  payloads as completed checkouts of the account \<^verbatim>\<open>u1\<close> and two as updates of the
  subscription of the customer \<^verbatim>\<open>cus_u1\<close>.
\<close>

definition sample_session :: "string \<Rightarrow> checkout_session" where
  "sample_session pkg =
     \<lparr>metadata_userId = Some ''u1'', metadata_packageType = Some pkg,
      customer = Some ''cus_1'',
      session_subscription = (if pkg = ''lifetime'' then None else Some ''sub_1''),
      payment_intent = (if pkg = ''lifetime'' then Some ''pi_1'' else None),
      mode = Some (if pkg = ''lifetime'' then ''payment'' else ''subscription'')\<rparr>"

definition sample_subscription :: "string \<Rightarrow> stripe_subscription" where
  "sample_subscription st =
     \<lparr>sub_id = ''sub_9'', sub_customer = ''cus_u1'', sub_status = st,
      current_period_end = 1700000000\<rparr>"

definition sample_api :: stripe_api where
  "sample_api =
     \<lparr>constructEvent = (\<lambda>payload sig secret.
        if sig = Some ''whsec_1'' \<and> secret = Some ''whsec_1''
        then (if payload = ''checkout monthly''
              then Inr (CheckoutSessionCompleted (sample_session ''monthly''))
              else if payload = ''checkout lifetime''
              then Inr (CheckoutSessionCompleted (sample_session ''lifetime''))
              else if payload = ''subscription active''
              then Inr (SubscriptionUpdated (sample_subscription ''active''))
              else if payload = ''subscription past_due''
              then Inr (SubscriptionUpdated (sample_subscription ''past_due''))
              else Inr (OtherEvent payload))
        else Inl ''No signatures found matching the expected signature for payload''),
      subscriptions_retrieve = (\<lambda>subscriptionId. Inr 1700000000),
      subscriptions_update = (\<lambda>subscriptionId. True),
      subscriptions_cancel = (\<lambda>subscriptionId. True),
      customers_create = (\<lambda>userId. Inr (''cus_'' @ userId)),
      checkout_sessions_create = (\<lambda>customerId. True)\<rparr>"

text \<open>The account \<^verbatim>\<open>alice\<close> as \<^verbatim>\<open>createUser\<close> stores it, and with a paid monthly plan.\<close>

definition alice :: user where
  "alice = createUser ''u1'' ''alice'' ''secret1'' 1000"

definition alice_monthly :: user where
  "alice_monthly =
     alice\<lparr>subscription := Some (empty_license\<lparr>status := Some ''active'',
       package := Some ''monthly'', stripeCustomerId := Some ''cus_1'',
       stripeSubscriptionId := Some ''sub_1'', currentPeriodEnd := Some 1700000000000,
       activatedAt := Some 2000\<rparr>)\<rparr>"

definition bob_bound :: user where
  "bob_bound =
     (createUser ''u2'' ''bob'' ''secret2'' 1000)
       \<lparr>hwid := Some ''HW-BOB'', hwidLockedAt := Some 1500,
        subscription := Some (empty_license\<lparr>status := Some ''active'',
          package := Some ''lifetime'', stripeCustomerId := Some ''cus_2'',
          activatedAt := Some 1200\<rparr>)\<rparr>"

definition sample_vouch :: vouch where
  "sample_vouch =
     \<lparr>vouch_id = ''v1'', authorId = ''author'', targetUserId = ''target'', rating = 5,
      vouch_message = ''Great service, very fast!'', approved = False, featured = False,
      rejected = False, approvedBy = None, rejectedBy = None, rejectionReason = None\<rparr>"

text \<open>The same account after a cancellation, inside the period already paid for.\<close>

definition alice_cancelled :: user where
  "alice_cancelled =
     alice_monthly\<lparr>subscription := Some (empty_license\<lparr>status := Some ''cancelled'',
       package := Some ''monthly'', stripeCustomerId := Some ''cus_1'',
       stripeSubscriptionId := Some ''sub_1'', currentPeriodEnd := Some 1700000000000,
       activatedAt := Some 2000, cancelledAt := Some 3000\<rparr>)\<rparr>"

text \<open>
  A signup, a paid checkout, a first client login and a self-service reset, in this
  order.
\<close>

definition sample_run :: "operation list" where
  "sample_run =
     [Signup (Some ''alice'') (Some ''secret1'') ''u1'' 1000,
      Webhook ''checkout monthly'' (Some ''whsec_1'') 2000,
      Login (Some ''alice'') (Some ''secret1'') (Some ''HW-1'') 3000,
      ResetHwidP2 (Some ''u1'') 4000]"

text \<open>The account after a second delivery of its monthly checkout, at a later time.\<close>

definition alice_replayed :: user where
  "alice_replayed =
     alice\<lparr>subscription := Some (empty_license\<lparr>status := Some ''active'',
       package := Some ''monthly'', stripeCustomerId := Some ''cus_1'',
       stripeSubscriptionId := Some ''sub_1'', currentPeriodEnd := Some 1700000000000,
       activatedAt := Some 9000\<rparr>)\<rparr>"

text \<open>
  The account that bought the monthly plan and later the lifetime plan: the second
  checkout leaves \<^verbatim>\<open>stripeSubscriptionId\<close> as the first one wrote it.
\<close>

definition alice_upgraded :: user where
  "alice_upgraded =
     alice\<lparr>subscription := Some (empty_license\<lparr>status := Some ''active'',
       package := Some ''lifetime'', stripeCustomerId := Some ''cus_1'',
       stripeSubscriptionId := Some ''sub_1'', currentPeriodEnd := None,
       activatedAt := Some 3000\<rparr>)\<rparr>"



text \<open>
  An account of the first revision's file that never paid, and an account as the
  revision before payments creates it.
\<close>

definition carol :: file_user where
  "carol =
     \<lparr>fu_id = ''1700000000000'', fu_username = ''carol'', fu_password = ''secret3'',
      fu_createdAt = 1000, fu_hwid = None, fu_hwidLockedAt = None, fu_subscription = None\<rparr>"

definition erin :: user where
  "erin = createUser_p2b ''u5'' ''erin'' ''secret5'' 1000"

section \<open>Auxiliary notions\<close>

text \<open>An account with \<^verbatim>\<open>subscription.activatedAt\<close> blanked, to compare all other fields.\<close>

definition without_activatedAt :: "user \<Rightarrow> user" where
  "without_activatedAt u =
     u\<lparr>subscription := map_option (\<lambda>s. s\<lparr>activatedAt := None\<rparr>) (subscription u)\<rparr>"

text \<open>The binding invariant on an account of the first revision's file.\<close>

definition file_hwid_consistent :: "file_user \<Rightarrow> bool" where
  "file_hwid_consistent u = ((fu_hwid u \<noteq> None) = (fu_hwidLockedAt u \<noteq> None))"

text \<open>The stored fingerprint is not the empty string.\<close>

definition hwid_nonempty :: "user \<Rightarrow> bool" where
  "hwid_nonempty u = (hwid u \<noteq> Some [])"


section \<open>Lemmas about the repository\<close>

lemmas sample_defs = alice_def alice_monthly_def bob_bound_def createUser_def empty_license_def

lemma find_uid_distinct:
  "distinct (map uid db) \<Longrightarrow> u \<in> set db \<Longrightarrow> find (\<lambda>x. uid x = uid u) db = Some u"
proof (induction db)
  case Nil
  then show ?case by simp
next
  case (Cons a db)
  then show ?case by (auto simp: image_iff)
qed

lemma getUserById_member:
  "distinct (map uid db) \<Longrightarrow> u \<in> set db \<Longrightarrow> getUserById db (uid u) = Some u"
  by (simp add: getUserById_def find_uid_distinct)

lemma getUserByUsername_member:
  "getUserByUsername db name = Some u \<Longrightarrow> u \<in> set db \<and> username u = Some name"
  by (auto simp: getUserByUsername_def find_Some_iff)

lemma find_uid_map:
  assumes "\<And>x. uid (f x) = uid x"
  shows "find (\<lambda>x. uid x = i) (map (\<lambda>u. if uid u = i then f u else u) db)
         = map_option f (find (\<lambda>x. uid x = i) db)"
  using assms by (induction db) auto

lemma updateUser_found:
  assumes "getUserById db i = Some u" and "\<And>x. uid (f x) = uid x"
  shows "\<exists>db'. updateUser db i f = Inr db' \<and> getUserById db' i = Some (f u)"
  using assms by (simp add: updateUser_def getUserById_def find_uid_map)

lemma uid_login_updates [simp]: "uid (login_updates h now found u) = uid u"
  by (simp add: login_updates_def update_login_stats_def)

lemma updateUser_preserves:
  assumes "updateUser db i f = Inr db'" and "list_all P db" and "\<And>u. P u \<Longrightarrow> P (f u)"
  shows "list_all P db'"
  using assms by (auto simp: updateUser_def list_all_iff split: option.splits)

lemma find_update_first:
  assumes "find P xs = Some x" and "\<And>y. P y \<Longrightarrow> P (f y)"
  shows "find P (update_first P f xs) = Some (f x)"
  using assms by (induction xs) (auto split: if_splits)

lemma update_first_preserves:
  "list_all Q xs \<Longrightarrow> (\<And>y. Q y \<Longrightarrow> Q (f y)) \<Longrightarrow> list_all Q (update_first P f xs)"
  by (induction xs) auto

section \<open>The HWID binding of the client login\<close>

text \<open>
  The client login refuses an empty fingerprint and no other route writes \<^verbatim>\<open>hwid\<close>
  a string, so no account ever holds the empty string there.
\<close>

lemma nonempty_update_subscription:
  "hwid_nonempty u \<Longrightarrow> hwid_nonempty (update_subscription f u)"
  by (simp add: hwid_nonempty_def update_subscription_def)

lemma perform_hwid_nonempty:
  assumes "list_all hwid_nonempty db"
  shows "list_all hwid_nonempty (perform api secret db op)"
proof (cases op)
  case (Login n p h now)
  have "hwid_nonempty (login_updates x now found u)" if "hwid_nonempty u" "x \<noteq> []" for x found u
    using that by (simp add: hwid_nonempty_def login_updates_def update_login_stats_def)
  with assms Login show ?thesis
    by (auto simp: login_def truthy_def split: option.splits sum.splits
        elim!: updateUser_preserves)
next
  case (WebLogin n p now)
  with assms show ?thesis
    by (auto simp: web_login_def hwid_nonempty_def split: option.splits sum.splits
        elim!: updateUser_preserves)
next
  case (Signup n p newId now)
  with assms show ?thesis
    by (auto simp: signup_def hwid_nonempty_def createUser_def split: option.splits)
next
  case (ResetHwid n)
  with assms show ?thesis
    by (auto simp: reset_hwid_def hwid_nonempty_def split: option.splits sum.splits
        elim!: updateUser_preserves)
next
  case (Webhook body sig now)
  have "list_all hwid_nonempty db'" if "dispatch api db ev now = Inr db'" for ev db'
    using that assms
    by (cases ev)
      (auto simp: handleCheckoutSessionCompleted_def handleSubscriptionUpdated_def
        handleSubscriptionDeleted_def handlePaymentSucceeded_def handlePaymentFailed_def
        split: option.splits if_splits
        elim!: updateUser_preserves intro: nonempty_update_subscription)
  with assms Webhook show ?thesis
    by (auto simp: webhook_def split: sum.splits)
next
  case (CreateCheckoutSession i price pkg)
  with assms show ?thesis
    by (auto simp: create_checkout_session_def split: option.splits sum.splits
        elim!: updateUser_preserves intro: nonempty_update_subscription)
next
  case (CancelSubscription i now)
  with assms show ?thesis
    by (auto simp: cancel_subscription_def split: option.splits sum.splits
        elim!: updateUser_preserves intro: nonempty_update_subscription)
next
  case (SignupP2 n e p newId now)
  with assms show ?thesis
    by (auto simp: signup_p2_def hwid_nonempty_def newUser_p2_def split: option.splits)
next
  case (ResetHwidP2 i now)
  with assms show ?thesis
    by (auto simp: reset_hwid_p2_def split: option.splits sum.splits
        elim!: updateUser_preserves intro: nonempty_update_subscription)
next
  case (WebhookP2 body sig now)
  have "list_all hwid_nonempty db'" if "dispatch_p2 api db ev now = Inr db'" for ev db'
    using that assms
    by (cases ev)
      (auto simp: handleCheckoutSessionCompleted_p2_def handleSubscriptionUpdated_def
        handleSubscriptionDeleted_def handlePaymentSucceeded_p2_def handlePaymentFailed_p2_def
        Let_def
        split: option.splits if_splits sum.splits
        elim!: updateUser_preserves intro: nonempty_update_subscription)
  with assms WebhookP2 show ?thesis
    by (auto simp: webhook_p2_def split: sum.splits)
next
  case (CreateCheckoutSessionP2 i)
  with assms show ?thesis
    by (auto simp: create_checkout_session_p2_def split: option.splits sum.splits
        elim!: updateUser_preserves intro: nonempty_update_subscription)
qed

lemma stored_hwid_never_empty:
  "list_all hwid_nonempty (foldl (perform api secret) [] ops)"
proof -
  have "list_all hwid_nonempty db \<Longrightarrow> list_all hwid_nonempty (foldl (perform api secret) db ops)"
    for db
    by (induction ops arbitrary: db) (simp_all add: perform_hwid_nonempty)
  then show ?thesis by simp
qed

text \<open>
  The login of the first revision makes the same three-way decision, without a license
  check before it.
\<close>

lemma login_js_hwid_binding:
  assumes found: "find (\<lambda>u. fu_username u = name \<and> fu_password u = pw) users = Some acct"
    and req: "name \<noteq> []" "pw \<noteq> []" "h \<noteq> []"
    and stored: "fu_hwid acct \<noteq> Some []"
  shows "(fu_hwid acct = None \<longrightarrow>
            fst (login_js users (Some name) (Some pw) (Some h) now)
              = json_reply 200 True ''Login successful - Account locked to this computer''
          \<and> find (\<lambda>u. fu_username u = name \<and> fu_password u = pw)
                (snd (login_js users (Some name) (Some pw) (Some h) now))
              = Some (acct\<lparr>fu_hwid := Some h, fu_hwidLockedAt := Some now\<rparr>))
       \<and> (fu_hwid acct = Some h \<longrightarrow>
            login_js users (Some name) (Some pw) (Some h) now
              = (json_reply 200 True ''Login successful'', users))
       \<and> (fu_hwid acct \<noteq> None \<and> fu_hwid acct \<noteq> Some h \<longrightarrow>
            login_js users (Some name) (Some pw) (Some h) now
              = (json_reply 200 False
                   ''Hardware ID mismatch - This account is locked to another computer'', users))"
proof -
  have "find (\<lambda>u. fu_username u = name \<and> fu_password u = pw)
          (update_first (\<lambda>u. fu_username u = name \<and> fu_password u = pw)
             (\<lambda>u. u\<lparr>fu_hwid := Some h, fu_hwidLockedAt := Some now\<rparr>) users)
        = Some (acct\<lparr>fu_hwid := Some h, fu_hwidLockedAt := Some now\<rparr>)"
    using found by (rule find_update_first) simp
  then show ?thesis
    using found req stored by (auto simp: login_js_def truthy_def)
qed


text \<open>
  Claim C1. A client login that passed the checks before the binding (all three fields
  present, credentials valid, license active) is decided by the account's stored
  \<^verbatim>\<open>hwid\<close> alone. When it is null the login is admitted and the account is bound:
  \<^verbatim>\<open>hwid\<close> becomes the presented fingerprint and \<^verbatim>\<open>hwidLockedAt\<close> the time of the
  request. When it is the presented fingerprint, string for string, the login is
  admitted and both fields stay as they were. Otherwise the login is refused with the
  hardware-mismatch answer and the collection is unchanged. Document ids are unique, and
  the stored fingerprint is not the empty string: the route only ever stores a
  fingerprint it was presented, and it refuses an empty one.
\<close>

theorem login_hwid_binding:
  assumes ids: "distinct (map uid db)"
    and found: "getUserByUsername db name = Some acct"
    and req: "name \<noteq> []" "pw \<noteq> []" "h \<noteq> []"
    and cred: "password acct = Some pw"
    and lic: "is_active acct"
    and stored: "hwid acct \<noteq> Some []"
  shows "(hwid acct = None \<longrightarrow>
            fst (login db (Some name) (Some pw) (Some h) now) = json_reply 200 True ''Login successful''
          \<and> map_option hwid (getUserById (snd (login db (Some name) (Some pw) (Some h) now)) (uid acct))
              = Some (Some h)
          \<and> map_option hwidLockedAt
              (getUserById (snd (login db (Some name) (Some pw) (Some h) now)) (uid acct))
              = Some (Some now))
       \<and> (hwid acct = Some h \<longrightarrow>
            fst (login db (Some name) (Some pw) (Some h) now) = json_reply 200 True ''Login successful''
          \<and> map_option hwid (getUserById (snd (login db (Some name) (Some pw) (Some h) now)) (uid acct))
              = Some (hwid acct)
          \<and> map_option hwidLockedAt
              (getUserById (snd (login db (Some name) (Some pw) (Some h) now)) (uid acct))
              = Some (hwidLockedAt acct))
       \<and> (hwid acct \<noteq> None \<and> hwid acct \<noteq> Some h \<longrightarrow>
            login db (Some name) (Some pw) (Some h) now
              = (json_reply 403 False ''Hardware mismatch. Contact administrator.'', db))"
proof -
  from found have mem: "acct \<in> set db" by (simp add: getUserByUsername_member)
  with ids have byid: "getUserById db (uid acct) = Some acct" by (rule getUserById_member)
  obtain db' where upd: "updateUser db (uid acct) (login_updates h now acct) = Inr db'"
    and after: "getUserById db' (uid acct) = Some (login_updates h now acct acct)"
    using updateUser_found [OF byid, of "login_updates h now acct"] by auto
  have pre: "truthy (Some name)" "truthy (Some pw)" "truthy (Some h)"
    using req by (simp_all add: truthy_def)
  show ?thesis
  proof (cases "hwid acct")
    case None
    then have "login db (Some name) (Some pw) (Some h) now
               = (json_reply 200 True ''Login successful'', db')"
      using pre found cred lic upd by (simp add: login_def truthy_def)
    with None after show ?thesis
      by (simp add: login_updates_def update_login_stats_def truthy_def)
  next
    case (Some s)
    with stored have ne: "s \<noteq> []" by simp
    show ?thesis
    proof (cases "s = h")
      case True
      then have "login db (Some name) (Some pw) (Some h) now
               = (json_reply 200 True ''Login successful'', db')"
        using pre found cred lic upd Some by (simp add: login_def truthy_def)
      with Some True after ne show ?thesis
        by (simp add: login_updates_def update_login_stats_def truthy_def)
    next
      case False
      then show ?thesis
        using pre found cred lic Some ne by (simp add: login_def truthy_def)
    qed
  qed
qed


text \<open>
  The three cases on two accounts: \<^verbatim>\<open>alice\<close> is unbound, \<^verbatim>\<open>bob\<close> is bound to
  \<^verbatim>\<open>HW-BOB\<close>.
\<close>

theorem login_hwid_binding_witness:
  "fst (login [alice_monthly, bob_bound] (Some ''alice'') (Some ''secret1'') (Some ''HW-1'') 5000)
     = json_reply 200 True ''Login successful''
   \<and> map_option hwid (getUserById (snd (login [alice_monthly, bob_bound]
         (Some ''alice'') (Some ''secret1'') (Some ''HW-1'') 5000)) ''u1'') = Some (Some ''HW-1'')
   \<and> map_option hwidLockedAt (getUserById (snd (login [alice_monthly, bob_bound]
         (Some ''alice'') (Some ''secret1'') (Some ''HW-1'') 5000)) ''u1'') = Some (Some 5000)
   \<and> fst (login [alice_monthly, bob_bound] (Some ''bob'') (Some ''secret2'') (Some ''HW-BOB'') 5000)
     = json_reply 200 True ''Login successful''
   \<and> map_option hwidLockedAt (getUserById (snd (login [alice_monthly, bob_bound]
         (Some ''bob'') (Some ''secret2'') (Some ''HW-BOB'') 5000)) ''u2'') = Some (Some 1500)
   \<and> login [alice_monthly, bob_bound] (Some ''bob'') (Some ''secret2'') (Some ''HW-OTHER'') 5000
     = (json_reply 403 False ''Hardware mismatch. Contact administrator.'',
        [alice_monthly, bob_bound])"
proof -
  have ids: "distinct (map uid [alice_monthly, bob_bound])"
    by (simp add: sample_defs)
  have a: "getUserByUsername [alice_monthly, bob_bound] ''alice'' = Some alice_monthly"
    by (simp add: getUserByUsername_def sample_defs)
  have b: "getUserByUsername [alice_monthly, bob_bound] ''bob'' = Some bob_bound"
    by (simp add: getUserByUsername_def sample_defs)
  have fields: "password alice_monthly = Some ''secret1''" "is_active alice_monthly"
    "hwid alice_monthly = None" "uid alice_monthly = ''u1''"
    "password bob_bound = Some ''secret2''" "is_active bob_bound"
    "hwid bob_bound = Some ''HW-BOB''" "uid bob_bound = ''u2''"
    "hwidLockedAt bob_bound = Some 1500"
    by (simp_all add: sample_defs is_active_def)
  have ne: "''alice'' \<noteq> []" "''bob'' \<noteq> []" "''secret1'' \<noteq> []" "''secret2'' \<noteq> []"
    "''HW-1'' \<noteq> []" "''HW-BOB'' \<noteq> []" "''HW-OTHER'' \<noteq> []"
    by simp_all
  show ?thesis
    using login_hwid_binding [OF ids a ne(1) ne(3) ne(5) fields(1) fields(2), of 5000]
      login_hwid_binding [OF ids b ne(2) ne(4) ne(6) fields(5) fields(6), of 5000]
      login_hwid_binding [OF ids b ne(2) ne(4) ne(7) fields(5) fields(6), of 5000]
    by (simp add: fields)
qed

section \<open>License gating of the client login\<close>

text \<open>
  Claim C6, as the code has it. The license-gated client login, which is the login of
  part\_001, admits a request only if the account it finds has a subscription whose
  status is \<^verbatim>\<open>active\<close>. With valid credentials and any other license state (no
  subscription, or a status other than \<^verbatim>\<open>active\<close>, whatever \<^verbatim>\<open>currentPeriodEnd\<close>
  says) the answer is 403 \<^verbatim>\<open>No active license\<close> and nothing is written, so no
  fingerprint is bound.
\<close>

theorem login_requires_active_license:
  "(http_status (fst (login db req_username req_password req_hwid now)) = 200 \<longrightarrow>
      (\<exists>name acct s. req_username = Some name \<and> getUserByUsername db name = Some acct
          \<and> subscription acct = Some s \<and> status s = Some ''active''))
   \<and> (name \<noteq> [] \<and> pw \<noteq> [] \<and> h \<noteq> [] \<and> getUserByUsername db name = Some acct
        \<and> password acct = Some pw
        \<and> (\<forall>s. subscription acct = Some s \<longrightarrow> status s \<noteq> Some ''active'') \<longrightarrow>
      login db (Some name) (Some pw) (Some h) now
        = (json_reply 403 False ''No active license. Please purchase a subscription.'', db))"
  by (auto simp: login_def json_reply_def truthy_def is_active_def
           split: option.splits sum.splits)

text \<open>A cancelled account whose paid period ends long after the login is refused.\<close>

theorem login_requires_active_license_witness:
  "login [alice_cancelled] (Some ''alice'') (Some ''secret1'') (Some ''HW-1'') 5000
     = (json_reply 403 False ''No active license. Please purchase a subscription.'',
        [alice_cancelled])
   \<and> map_option currentPeriodEnd (subscription alice_cancelled) = Some (Some 1700000000000)
   \<and> (5000 :: int) < 1700000000000"
proof -
  have f: "''alice'' \<noteq> [] \<and> ''secret1'' \<noteq> [] \<and> ''HW-1'' \<noteq> []
      \<and> getUserByUsername [alice_cancelled] ''alice'' = Some alice_cancelled
      \<and> password alice_cancelled = Some ''secret1''
      \<and> (\<forall>s. subscription alice_cancelled = Some s \<longrightarrow> status s \<noteq> Some ''active'')"
    by (simp add: getUserByUsername_def alice_cancelled_def sample_defs)
  show ?thesis
    using login_requires_active_license
      [of "[alice_cancelled]" "Some ''alice''" "Some ''secret1''" "Some ''HW-1''" 5000
          "''alice''" "''secret1''" "''HW-1''" alice_cancelled] f
    by (simp add: alice_cancelled_def sample_defs)
qed

text \<open>
  The claim for every client login fails. The login of the first revision
  (\<^verbatim>\<open>src/server.js\<close>) and the login of the revision before payments (second file of
  part\_002) never read the subscription: an account that has none presents valid
  credentials and a fingerprint, is admitted with 200, and is bound.
\<close>

theorem ungated_login_counterexample:
  "fu_subscription carol = None
   \<and> fst (login_js [carol] (Some ''carol'') (Some ''secret3'') (Some ''HW-3'') 5000)
       = json_reply 200 True ''Login successful - Account locked to this computer''
   \<and> map fu_hwid (snd (login_js [carol] (Some ''carol'') (Some ''secret3'') (Some ''HW-3'') 5000))
       = [Some ''HW-3'']
   \<and> subscription erin = None
   \<and> fst (login_p2b [erin] (Some ''erin'') (Some ''secret5'') (Some ''HW-5'') 5000)
       = json_reply 200 True ''Login successful''
   \<and> map hwid (snd (login_p2b [erin] (Some ''erin'') (Some ''secret5'') (Some ''HW-5'') 5000))
       = [Some ''HW-5'']"
  by (simp add: carol_def erin_def createUser_p2b_def login_js_def login_p2b_def truthy_def
      getUserByUsername_def updateUser_def getUserById_def)

section \<open>The binding invariant\<close>

lemma consistent_update_subscription:
  "hwid_consistent u \<Longrightarrow> hwid_consistent (update_subscription f u)"
  by (simp add: hwid_consistent_def update_subscription_def)

lemma consistent_login_updates:
  "hwid_consistent u \<Longrightarrow> hwid_consistent (login_updates h now found u)"
  by (simp add: hwid_consistent_def login_updates_def update_login_stats_def)

lemma login_consistent:
  "list_all hwid_consistent db \<Longrightarrow> list_all hwid_consistent (snd (login db n p h now))"
  by (auto simp: login_def split: option.splits sum.splits
      elim!: updateUser_preserves intro: consistent_login_updates)

lemma web_login_consistent:
  "list_all hwid_consistent db \<Longrightarrow> list_all hwid_consistent (snd (web_login db n p now))"
  by (auto simp: web_login_def hwid_consistent_def split: option.splits sum.splits
      elim!: updateUser_preserves)

lemma signup_consistent:
  "list_all hwid_consistent db \<Longrightarrow> list_all hwid_consistent (snd (signup db n p newId now))"
  by (auto simp: signup_def hwid_consistent_def createUser_def split: option.splits)

lemma reset_hwid_consistent:
  "list_all hwid_consistent db \<Longrightarrow> list_all hwid_consistent (snd (reset_hwid db n))"
  by (auto simp: reset_hwid_def hwid_consistent_def split: option.splits sum.splits
      elim!: updateUser_preserves)

lemma dispatch_consistent:
  "list_all hwid_consistent db \<Longrightarrow> dispatch api db ev now = Inr db'
     \<Longrightarrow> list_all hwid_consistent db'"
  by (cases ev)
    (auto simp: handleCheckoutSessionCompleted_def handleSubscriptionUpdated_def
      handleSubscriptionDeleted_def handlePaymentSucceeded_def handlePaymentFailed_def
      split: option.splits if_splits
      elim!: updateUser_preserves intro: consistent_update_subscription)

lemma webhook_consistent:
  "list_all hwid_consistent db
     \<Longrightarrow> list_all hwid_consistent (snd (webhook api secret db body sig now))"
  by (auto simp: webhook_def split: sum.splits dest: dispatch_consistent)

lemma create_checkout_session_consistent:
  "list_all hwid_consistent db
     \<Longrightarrow> list_all hwid_consistent (snd (create_checkout_session api db i price pkg))"
  by (auto simp: create_checkout_session_def split: option.splits sum.splits
      elim!: updateUser_preserves intro: consistent_update_subscription)

lemma cancel_subscription_consistent:
  "list_all hwid_consistent db
     \<Longrightarrow> list_all hwid_consistent (snd (cancel_subscription api db i now))"
  by (auto simp: cancel_subscription_def split: option.splits sum.splits
      elim!: updateUser_preserves intro: consistent_update_subscription)

lemma signup_p2_consistent:
  "list_all hwid_consistent db
     \<Longrightarrow> list_all hwid_consistent (snd (signup_p2 db n e p newId now))"
  by (auto simp: signup_p2_def hwid_consistent_def newUser_p2_def split: option.splits)

lemma reset_hwid_p2_consistent:
  "list_all hwid_consistent db \<Longrightarrow> list_all hwid_consistent (snd (reset_hwid_p2 db i now))"
  by (auto simp: reset_hwid_p2_def split: option.splits sum.splits
      elim!: updateUser_preserves intro: consistent_update_subscription)

lemma dispatch_p2_consistent:
  "list_all hwid_consistent db \<Longrightarrow> dispatch_p2 api db ev now = Inr db'
     \<Longrightarrow> list_all hwid_consistent db'"
  by (cases ev)
    (auto simp: handleCheckoutSessionCompleted_p2_def handleSubscriptionUpdated_def
      handleSubscriptionDeleted_def handlePaymentSucceeded_p2_def handlePaymentFailed_p2_def
      Let_def
      split: option.splits if_splits sum.splits
      elim!: updateUser_preserves intro: consistent_update_subscription)

lemma webhook_p2_consistent:
  "list_all hwid_consistent db
     \<Longrightarrow> list_all hwid_consistent (snd (webhook_p2 api secret db body sig now))"
  by (auto simp: webhook_p2_def split: sum.splits dest: dispatch_p2_consistent)

lemma create_checkout_session_p2_consistent:
  "list_all hwid_consistent db
     \<Longrightarrow> list_all hwid_consistent (snd (create_checkout_session_p2 api db i))"
  by (auto simp: create_checkout_session_p2_def split: option.splits sum.splits
      elim!: updateUser_preserves intro: consistent_update_subscription)

lemma perform_consistent:
  "list_all hwid_consistent db \<Longrightarrow> list_all hwid_consistent (perform api secret db op)"
  by (cases op)
    (simp_all add: login_consistent web_login_consistent signup_consistent
      reset_hwid_consistent webhook_consistent create_checkout_session_consistent
      cancel_subscription_consistent signup_p2_consistent reset_hwid_p2_consistent
      webhook_p2_consistent create_checkout_session_p2_consistent)

text \<open>
  Claim C2. In every account, \<^verbatim>\<open>hwid\<close> is non-null exactly when \<^verbatim>\<open>hwidLockedAt\<close> is
  non-null, after every request: client login, web login, signup, administrative and
  self-service reset, every webhook event, checkout-session creation and cancellation,
  in both Firestore revisions. The property holds of the empty collection and each
  request keeps it, so it holds after any sequence of requests, whatever the
  processor answers.
\<close>

theorem hwid_bound_iff_locked:
  assumes "list_all hwid_consistent db"
  shows "list_all (\<lambda>u. (hwid u \<noteq> None) = (hwidLockedAt u \<noteq> None))
           (foldl (perform api secret) db ops)"
proof -
  have "list_all hwid_consistent (foldl (perform api secret) db ops)"
    using assms by (induction ops arbitrary: db) (simp_all add: perform_consistent)
  then show ?thesis by (simp add: hwid_consistent_def [abs_def])
qed

text \<open>
  The sample run binds the account at its first login; the self-service reset then
  leaves the top-level binding in place, and the administrative reset clears both
  fields together.
\<close>

lemma sample_run_result:
  "map (\<lambda>u. (hwid u, hwidLockedAt u))
     (foldl (perform sample_api (Some ''whsec_1'')) [] sample_run) = [(Some ''HW-1'', Some 3000)]"
  "map (\<lambda>u. (hwid u, hwidLockedAt u))
     (foldl (perform sample_api (Some ''whsec_1'')) [] (sample_run @ [ResetHwid (Some ''alice'')]))
     = [(None, None)]"
  by (simp_all add: sample_run_def signup_def webhook_def login_def reset_hwid_p2_def
      reset_hwid_def
      truthy_def getUserByUsername_def getUserById_def updateUser_def createUser_def
      sample_api_def sample_session_def handleCheckoutSessionCompleted_def
      update_subscription_def checkout_updates_def is_active_def login_updates_def
      update_login_stats_def empty_license_def json_reply_def)

theorem hwid_bound_iff_locked_witness:
  "list_all hwid_consistent []
   \<and> list_all (\<lambda>u. (hwid u \<noteq> None) = (hwidLockedAt u \<noteq> None))
       (foldl (perform sample_api (Some ''whsec_1'')) [] sample_run)
   \<and> map (\<lambda>u. (hwid u, hwidLockedAt u))
       (foldl (perform sample_api (Some ''whsec_1'')) [] sample_run) = [(Some ''HW-1'', Some 3000)]
   \<and> list_all (\<lambda>u. (hwid u \<noteq> None) = (hwidLockedAt u \<noteq> None))
       (foldl (perform sample_api (Some ''whsec_1'')) []
          (sample_run @ [ResetHwid (Some ''alice'')]))
   \<and> map (\<lambda>u. (hwid u, hwidLockedAt u))
       (foldl (perform sample_api (Some ''whsec_1'')) []
          (sample_run @ [ResetHwid (Some ''alice'')])) = [(None, None)]"
proof -
  have e: "list_all hwid_consistent []" by simp
  show ?thesis
    using e hwid_bound_iff_locked [OF e, of sample_api "Some ''whsec_1''" sample_run]
      hwid_bound_iff_locked [OF e, of sample_api "Some ''whsec_1''"
        "sample_run @ [ResetHwid (Some ''alice'')]"]
      sample_run_result
    by simp
qed

text \<open>The routes of the first revision keep the same invariant on the accounts file.\<close>

lemma file_store_consistent:
  assumes "list_all file_hwid_consistent users"
  shows "list_all file_hwid_consistent (snd (login_js users n p h now))"
    and "list_all file_hwid_consistent (snd (reset_hwid_js users n))"
    and "list_all file_hwid_consistent (snd (signup_js users n p newId now))"
    and "list_all file_hwid_consistent (snd (webhook_js api secret users body sig now))"
    and "list_all file_hwid_consistent (snd (cancel_subscription_js api users i))"
proof -
  show "list_all file_hwid_consistent (snd (login_js users n p h now))"
    using assms
    by (auto simp: login_js_def file_hwid_consistent_def split: option.splits
        intro!: update_first_preserves)
  show "list_all file_hwid_consistent (snd (reset_hwid_js users n))"
    using assms
    by (auto simp: reset_hwid_js_def file_hwid_consistent_def split: option.splits
        intro!: update_first_preserves)
  show "list_all file_hwid_consistent (snd (signup_js users n p newId now))"
    using assms
    by (auto simp: signup_js_def file_hwid_consistent_def split: option.splits)
  show "list_all file_hwid_consistent (snd (webhook_js api secret users body sig now))"
    using assms
    by (auto simp: webhook_js_def file_hwid_consistent_def split: sum.splits event.splits
        intro!: update_first_preserves)
  show "list_all file_hwid_consistent (snd (cancel_subscription_js api users i))"
    using assms
    by (auto simp: cancel_subscription_js_def split: option.splits)
qed

section \<open>Webhook authentication\<close>

text \<open>
  Claim C5. When the signature of an inbound webhook request does not verify against
  the shared secret over the raw body (\<^verbatim>\<open>constructEvent\<close> throws), the endpoint answers
  400 and the stored accounts are unchanged, in every revision. No payload is parsed or
  dispatched by the endpoint in that case: the event a handler receives is the value
  \<^verbatim>\<open>constructEvent\<close> returns, and there is none.
\<close>

theorem webhook_rejects_bad_signature:
  assumes "constructEvent api raw_body sig secret = Inl err"
  shows "http_status (fst (webhook api secret db raw_body sig now)) = 400
       \<and> snd (webhook api secret db raw_body sig now) = db
       \<and> http_status (fst (webhook_p2 api secret db raw_body sig now)) = 400
       \<and> snd (webhook_p2 api secret db raw_body sig now) = db
       \<and> http_status (fst (webhook_js api secret users raw_body sig now)) = 400
       \<and> snd (webhook_js api secret users raw_body sig now) = users"
  using assms by (simp add: webhook_def webhook_p2_def webhook_js_def)

text \<open>
  A forged signature on a checkout payload leaves the account inactive; the same
  payload with the right signature activates it.
\<close>

theorem webhook_rejects_bad_signature_witness:
  "http_status (fst (webhook sample_api (Some ''whsec_1'') [alice] ''checkout monthly''
       (Some ''forged'') 5000)) = 400
   \<and> snd (webhook sample_api (Some ''whsec_1'') [alice] ''checkout monthly''
       (Some ''forged'') 5000) = [alice]
   \<and> map_option status (subscription alice) = Some (Some ''inactive'')
   \<and> http_status (fst (webhook sample_api (Some ''whsec_1'') [alice] ''checkout monthly''
       (Some ''whsec_1'') 5000)) = 200
   \<and> map (\<lambda>u. map_option status (subscription u))
        (snd (webhook sample_api (Some ''whsec_1'') [alice] ''checkout monthly''
          (Some ''whsec_1'') 5000)) = [Some (Some ''active'')]"
proof -
  have bad: "constructEvent sample_api ''checkout monthly'' (Some ''forged'') (Some ''whsec_1'')
      = Inl ''No signatures found matching the expected signature for payload''"
    by (simp add: sample_api_def)
  have good: "http_status (fst (webhook sample_api (Some ''whsec_1'') [alice] ''checkout monthly''
       (Some ''whsec_1'') 5000)) = 200
   \<and> map (\<lambda>u. map_option status (subscription u))
        (snd (webhook sample_api (Some ''whsec_1'') [alice] ''checkout monthly''
          (Some ''whsec_1'') 5000)) = [Some (Some ''active'')]"
    by (simp add: webhook_def sample_api_def handleCheckoutSessionCompleted_def
        sample_session_def truthy_def updateUser_def getUserById_def sample_defs
        update_subscription_def checkout_updates_def)
  have before: "map_option status (subscription alice) = Some (Some ''inactive'')"
    by (simp add: sample_defs)
  show ?thesis
    using webhook_rejects_bad_signature [OF bad, where db = "[alice]" and now = 5000
        and users = "[]"] good before
    by simp
qed

section \<open>Featuring a vouch\<close>

text \<open>
  Claim C8. The \<^verbatim>\<open>!feature\<close> command of a moderator on an existing vouch: when the
  vouch is not approved the command is refused with the must-be-approved reply and the
  collection is unchanged, whatever \<^verbatim>\<open>featured\<close> was; when it is approved the command
  flips \<^verbatim>\<open>featured\<close> and changes no other field of the vouch.
\<close>

theorem toggle_featured:
  assumes "get_vouch vs vouchId = Some v" and "vouchId \<noteq> []"
  shows "(\<not> approved v \<longrightarrow>
            feature_command vs True (vouchId # rest)
              = (''Vouch must be approved before it can be featured.'', vs))
       \<and> (approved v \<longrightarrow>
            get_vouch (snd (feature_command vs True (vouchId # rest))) vouchId
              = Some (v\<lparr>featured := \<not> featured v\<rparr>)
          \<and> fst (feature_command vs True (vouchId # rest))
              = (if featured v then ''Vouch Unfeatured'' else ''Vouch Featured''))"
proof -
  have "find (\<lambda>x. vouch_id x = i) (map (\<lambda>x. if vouch_id x = i then f x else x) xs)
        = map_option f (find (\<lambda>x. vouch_id x = i) xs)"
    if "\<And>x. vouch_id (f x) = vouch_id x" for f i and xs :: vouches
    using that by (induction xs) auto
  then have "get_vouch (update_vouch vs vouchId (\<lambda>x. x\<lparr>featured := b\<rparr>)) vouchId
      = Some (v\<lparr>featured := b\<rparr>)" for b
    using assms(1) by (simp add: get_vouch_def update_vouch_def)
  then show ?thesis
    using assms by (simp add: feature_command_def Let_def)
qed

text \<open>An unapproved vouch is refused with either value of its flag; an approved one toggles.\<close>

theorem toggle_featured_witness:
  "feature_command [sample_vouch] True [''v1'']
     = (''Vouch must be approved before it can be featured.'', [sample_vouch])
   \<and> feature_command [sample_vouch\<lparr>featured := True\<rparr>] True [''v1'']
     = (''Vouch must be approved before it can be featured.'', [sample_vouch\<lparr>featured := True\<rparr>])
   \<and> map featured (snd (feature_command [sample_vouch\<lparr>approved := True\<rparr>] True [''v1'']))
     = [True]
   \<and> map featured (snd (feature_command [sample_vouch\<lparr>approved := True, featured := True\<rparr>]
        True [''v1''])) = [False]"
proof -
  have g: "get_vouch [sample_vouch] ''v1'' = Some sample_vouch"
    "get_vouch [sample_vouch\<lparr>featured := True\<rparr>] ''v1'' = Some (sample_vouch\<lparr>featured := True\<rparr>)"
    by (simp_all add: get_vouch_def sample_vouch_def)
  have ne: "''v1'' \<noteq> []" by simp
  have flip: "map featured (snd (feature_command [sample_vouch\<lparr>approved := True\<rparr>] True [''v1'']))
     = [True]"
    "map featured (snd (feature_command [sample_vouch\<lparr>approved := True, featured := True\<rparr>]
        True [''v1''])) = [False]"
    by (simp_all add: feature_command_def get_vouch_def update_vouch_def sample_vouch_def)
  show ?thesis
    using toggle_featured [OF g(1) ne, of "[]"] toggle_featured [OF g(2) ne, of "[]"] flip
    by (simp add: sample_vouch_def)
qed

section \<open>Self-service reset\<close>

text \<open>
  Claim C9. The self-service HWID reset of a signed-in account whose subscription is
  absent or has a status other than \<^verbatim>\<open>active\<close> is refused with
  \<^verbatim>\<open>No active subscription\<close>, before the seven-day cooldown is looked at, and writes
  nothing.
\<close>

theorem self_service_reset_requires_active:
  assumes "getUserById db userId = Some acct" and "userId \<noteq> []"
    and "\<forall>s. subscription acct = Some s \<longrightarrow> status s \<noteq> Some ''active''"
  shows "reset_hwid_p2 db (Some userId) now = (json_reply 200 False ''No active subscription'', db)"
  using assms by (auto simp: reset_hwid_p2_def is_active_def split: option.splits)

text \<open>
  A cancelled account and a fresh one are refused; the account with a paid plan is not.
\<close>

theorem self_service_reset_requires_active_witness:
  "reset_hwid_p2 [alice_cancelled] (Some ''u1'') 5000
     = (json_reply 200 False ''No active subscription'', [alice_cancelled])
   \<and> reset_hwid_p2 [alice] (Some ''u1'') 5000
     = (json_reply 200 False ''No active subscription'', [alice])
   \<and> fst (reset_hwid_p2 [alice_monthly] (Some ''u1'') 5000)
     = json_reply 200 True ''HWID reset successfully''"
proof -
  have a: "getUserById [alice_cancelled] ''u1'' = Some alice_cancelled"
    "getUserById [alice] ''u1'' = Some alice"
    by (simp_all add: getUserById_def alice_cancelled_def sample_defs)
  have ne: "''u1'' \<noteq> []" by simp
  have s: "\<forall>s. subscription alice_cancelled = Some s \<longrightarrow> status s \<noteq> Some ''active''"
    "\<forall>s. subscription alice = Some s \<longrightarrow> status s \<noteq> Some ''active''"
    by (simp_all add: alice_cancelled_def sample_defs)
  have ok: "fst (reset_hwid_p2 [alice_monthly] (Some ''u1'') 5000)
     = json_reply 200 True ''HWID reset successfully''"
    by (simp add: reset_hwid_p2_def getUserById_def updateUser_def is_active_def sample_defs)
  show ?thesis
    using self_service_reset_requires_active [OF a(1) ne s(1), of 5000]
      self_service_reset_requires_active [OF a(2) ne s(2), of 5000] ok
    by simp
qed

section \<open>Replay of a completed checkout\<close>

lemma checkout_updates_again:
  "checkout_updates api session pkg t2 (checkout_updates api session pkg t1 s)
     = checkout_updates api session pkg t2 s"
  by (simp add: checkout_updates_def Let_def split: option.splits sum.splits)

lemma checkout_updates_time:
  "(checkout_updates api session pkg t2 s)\<lparr>activatedAt := None\<rparr>
     = (checkout_updates api session pkg t1 s)\<lparr>activatedAt := None\<rparr>"
  by (simp add: checkout_updates_def Let_def split: option.splits sum.splits)

lemma uid_update_subscription [simp]: "uid (update_subscription f u) = uid u"
  by (simp add: update_subscription_def)

lemma update_subscription_twice:
  "update_subscription f (update_subscription g u) = update_subscription (\<lambda>s. f (g s)) u"
  by (simp add: update_subscription_def)

lemma without_activatedAt_update_subscription:
  assumes "\<And>s. (f s)\<lparr>activatedAt := None\<rparr> = (g s)\<lparr>activatedAt := None\<rparr>"
  shows "without_activatedAt (update_subscription f u) = without_activatedAt (update_subscription g u)"
  using assms by (simp add: without_activatedAt_def update_subscription_def)

lemma updateUser_twice:
  assumes "updateUser db i f = Inr db1" and "\<And>x. uid (f x) = uid x"
  shows "updateUser db1 i g = Inr (map (\<lambda>u. if uid u = i then g (f u) else u) db)"
proof -
  from assms(1) obtain u where u: "getUserById db i = Some u"
    and db1: "db1 = map (\<lambda>u. if uid u = i then f u else u) db"
    by (auto simp: updateUser_def split: option.splits)
  have "getUserById db1 i = Some (f u)"
    using u assms(2) by (simp add: db1 getUserById_def find_uid_map)
  moreover have "map (\<lambda>u. if uid u = i then g u else u) db1
      = map (\<lambda>u. if uid u = i then g (f u) else u) db"
    using assms(2) by (simp add: db1)
  ultimately show ?thesis by (simp add: updateUser_def)
qed

lemma updateUser_Inr:
  "updateUser db i f = Inr db1 \<Longrightarrow> db1 = map (\<lambda>u. if uid u = i then f u else u) db"
  by (auto simp: updateUser_def split: option.splits)

lemma updateUser_defined:
  "updateUser db i f = Inr db1 \<Longrightarrow> updateUser db i g = Inr (map (\<lambda>u. if uid u = i then g u else u) db)"
  by (auto simp: updateUser_def split: option.splits)

lemma checkout_replay:
  assumes "handleCheckoutSessionCompleted api db session t1 = Inr db1"
  shows "\<exists>db2. handleCheckoutSessionCompleted api db1 session t2 = Inr db2
           \<and> handleCheckoutSessionCompleted api db session t2 = Inr db2
           \<and> map without_activatedAt db2 = map without_activatedAt db1"
proof (cases "truthy (metadata_userId session)")
  case False
  with assms show ?thesis by (simp add: handleCheckoutSessionCompleted_def)
next
  case True
    then obtain userId where i: "metadata_userId session = Some userId"
      by (auto simp: truthy_def split: option.splits)
    from assms True i obtain pkg where p: "metadata_packageType session = Some pkg"
      by (auto simp: handleCheckoutSessionCompleted_def split: option.splits)
    let ?f = "\<lambda>t. update_subscription (checkout_updates api session pkg t)"
    from assms True i p have first: "updateUser db userId (?f t1) = Inr db1"
      by (simp add: handleCheckoutSessionCompleted_def)
    have db1: "db1 = map (\<lambda>u. if uid u = userId then ?f t1 u else u) db"
      using first by (rule updateUser_Inr)
    have second: "updateUser db1 userId (?f t2)
        = Inr (map (\<lambda>u. if uid u = userId then ?f t2 (?f t1 u) else u) db)"
      using first by (rule updateUser_twice) simp
    have fresh: "updateUser db userId (?f t2)
        = Inr (map (\<lambda>u. if uid u = userId then ?f t2 u else u) db)"
      using first by (rule updateUser_defined)
    have absorb: "?f t2 (?f t1 u) = ?f t2 u" for u
      by (simp add: update_subscription_twice checkout_updates_again)
    have same: "without_activatedAt (?f t2 u) = without_activatedAt (?f t1 u)" for u
      by (rule without_activatedAt_update_subscription) (rule checkout_updates_time)
    show ?thesis
      using True i p second fresh
      by (simp add: handleCheckoutSessionCompleted_def absorb db1 same)
qed

lemma checkout_replay_same_time:
  assumes "handleCheckoutSessionCompleted api db session t1 = Inr db1"
  shows "handleCheckoutSessionCompleted api db1 session t1 = Inr db1"
  using checkout_replay [OF assms, of t1] assms by auto


lemma replay_generic:
  assumes first: "updateUser db i (update_subscription (F t1)) = Inr db1"
    and absorb: "\<And>s. F t2 (F t1 s) = F t2 s"
    and time: "\<And>s. (F t2 s)\<lparr>activatedAt := None\<rparr> = (F t1 s)\<lparr>activatedAt := None\<rparr>"
  shows "\<exists>db2. updateUser db1 i (update_subscription (F t2)) = Inr db2
           \<and> updateUser db i (update_subscription (F t2)) = Inr db2
           \<and> map without_activatedAt db2 = map without_activatedAt db1"
proof -
  let ?f = "\<lambda>t. update_subscription (F t)"
  have db1: "db1 = map (\<lambda>u. if uid u = i then ?f t1 u else u) db"
    using first by (rule updateUser_Inr)
  have second: "updateUser db1 i (?f t2)
      = Inr (map (\<lambda>u. if uid u = i then ?f t2 (?f t1 u) else u) db)"
    using first by (rule updateUser_twice) simp
  have fresh: "updateUser db i (?f t2) = Inr (map (\<lambda>u. if uid u = i then ?f t2 u else u) db)"
    using first by (rule updateUser_defined)
  have a: "?f t2 (?f t1 u) = ?f t2 u" for u
    by (simp add: update_subscription_twice absorb)
  have same: "without_activatedAt (?f t2 u) = without_activatedAt (?f t1 u)" for u
    by (rule without_activatedAt_update_subscription) (rule time)
  show ?thesis
    using second fresh by (simp add: a db1 same)
qed

lemma checkout_replay_p2:
  assumes "handleCheckoutSessionCompleted_p2 api db session t1 = Inr db1"
  shows "\<exists>db2. handleCheckoutSessionCompleted_p2 api db1 session t2 = Inr db2
           \<and> handleCheckoutSessionCompleted_p2 api db session t2 = Inr db2
           \<and> map without_activatedAt db2 = map without_activatedAt db1"
proof -
  from assms obtain pkg where p: "metadata_packageType session = Some pkg"
    by (auto simp: handleCheckoutSessionCompleted_p2_def split: option.splits)
  show ?thesis
  proof (cases "pkg = ''lifetime''")
    case True
    with assms p obtain userId where i: "metadata_userId session = Some userId"
      by (auto simp: handleCheckoutSessionCompleted_p2_def split: option.splits)
    let ?F = "\<lambda>t s. s\<lparr>status := Some ''active'', package := Some pkg,
        stripeCustomerId := customer session, activatedAt := Some t, currentPeriodEnd := None\<rparr>"
    from assms p True i have "updateUser db userId (update_subscription (?F t1)) = Inr db1"
      by (simp add: handleCheckoutSessionCompleted_p2_def)
    from replay_generic [of db userId ?F t1 db1 t2, OF this]
    show ?thesis
      using p True i by (simp add: handleCheckoutSessionCompleted_p2_def)
  next
    case False
    with assms p obtain subscriptionId period_end userId
      where sub: "session_subscription session = Some subscriptionId"
        and pe: "subscriptions_retrieve api subscriptionId = Inr period_end"
        and i: "metadata_userId session = Some userId"
      by (auto simp: handleCheckoutSessionCompleted_p2_def split: option.splits sum.splits)
    let ?F = "\<lambda>t s. s\<lparr>status := Some ''active'', package := Some pkg,
        stripeCustomerId := customer session, activatedAt := Some t,
        stripeSubscriptionId := Some subscriptionId,
        currentPeriodEnd := Some (period_end * 1000)\<rparr>"
    from assms p False sub pe i
    have "updateUser db userId (update_subscription (?F t1)) = Inr db1"
      by (simp add: handleCheckoutSessionCompleted_p2_def)
    from replay_generic [of db userId ?F t1 db1 t2, OF this]
    show ?thesis
      using p False sub pe i by (simp add: handleCheckoutSessionCompleted_p2_def)
  qed
qed

text \<open>
  Claim C3, as the code has it. Let the checkout-completed handler have run for an
  event at time \<open>t1\<close>, and let the same event be handled again at time \<open>t2\<close>, the
  processor answering as before. The second run succeeds, and the collection it leaves
  is the one a single run at \<open>t2\<close> leaves: every field it writes is an absolute value.
  Against the collection after the first run, every account is the same except for
  \<^verbatim>\<open>subscription.activatedAt\<close>, which now holds \<open>t2\<close>. Handled again at the same
  time, the event changes nothing. This holds for the handler of part\_001 and for
  the handler of part\_002.
\<close>

theorem checkout_replay_refreshes_activatedAt:
  "(handleCheckoutSessionCompleted api db session t1 = Inr db1 \<longrightarrow>
      (\<exists>db2. handleCheckoutSessionCompleted api db1 session t2 = Inr db2
         \<and> handleCheckoutSessionCompleted api db session t2 = Inr db2
         \<and> map without_activatedAt db2 = map without_activatedAt db1)
      \<and> handleCheckoutSessionCompleted api db1 session t1 = Inr db1)
   \<and> (handleCheckoutSessionCompleted_p2 api db session t1 = Inr db1 \<longrightarrow>
      (\<exists>db2. handleCheckoutSessionCompleted_p2 api db1 session t2 = Inr db2
         \<and> handleCheckoutSessionCompleted_p2 api db session t2 = Inr db2
         \<and> map without_activatedAt db2 = map without_activatedAt db1)
      \<and> handleCheckoutSessionCompleted_p2 api db1 session t1 = Inr db1)"
proof -
  have "handleCheckoutSessionCompleted_p2 api db1 session t1 = Inr db1"
    if "handleCheckoutSessionCompleted_p2 api db session t1 = Inr db1"
    using checkout_replay_p2 [OF that, of t1] that by auto
  then show ?thesis
    using checkout_replay checkout_replay_same_time checkout_replay_p2 by blast
qed

lemma sample_checkout:
  "handleCheckoutSessionCompleted sample_api [alice] (sample_session ''monthly'') 2000
     = Inr [alice_monthly]"
  "handleCheckoutSessionCompleted sample_api [alice_monthly] (sample_session ''monthly'') 9000
     = Inr [alice_replayed]"
  by (simp_all add: handleCheckoutSessionCompleted_def sample_session_def truthy_def
      updateUser_def getUserById_def update_subscription_def checkout_updates_def
      sample_api_def alice_replayed_def sample_defs)

text \<open>
  The claim as the specification states it, that the replay leaves the subscription
  fields of the first run, fails: handled at 2000 and again at 9000, the monthly
  checkout of \<^verbatim>\<open>alice\<close> leaves \<^verbatim>\<open>activatedAt\<close> at 9000, not at 2000.
\<close>

theorem checkout_replay_counterexample:
  "handleCheckoutSessionCompleted sample_api [alice] (sample_session ''monthly'') 2000
     = Inr [alice_monthly]
   \<and> handleCheckoutSessionCompleted sample_api [alice_monthly] (sample_session ''monthly'') 9000
     = Inr [alice_replayed]
   \<and> map_option activatedAt (subscription alice_monthly) = Some (Some 2000)
   \<and> map_option activatedAt (subscription alice_replayed) = Some (Some 9000)
   \<and> subscription alice_replayed \<noteq> subscription alice_monthly"
  by (simp add: sample_checkout) (simp add: alice_replayed_def sample_defs)

text \<open>The same two deliveries, read through the theorem.\<close>

theorem checkout_replay_refreshes_activatedAt_witness:
  "handleCheckoutSessionCompleted sample_api [alice_monthly] (sample_session ''monthly'') 9000
     = Inr [alice_replayed]
   \<and> handleCheckoutSessionCompleted sample_api [alice] (sample_session ''monthly'') 9000
     = Inr [alice_replayed]
   \<and> without_activatedAt alice_replayed = without_activatedAt alice_monthly
   \<and> handleCheckoutSessionCompleted sample_api [alice_monthly] (sample_session ''monthly'') 2000
     = Inr [alice_monthly]"
  using checkout_replay_refreshes_activatedAt
    [of sample_api "[alice]" "sample_session ''monthly''" 2000 "[alice_monthly]" 9000]
    sample_checkout
  by auto

section \<open>Lookups of the account repository\<close>

lemma lower_Alice: "toLowerCase ''Alice'' = toLowerCase ''alice''"
  by code_simp

text \<open>
  The claim that the lookup by username ignores letter case fails: \<^verbatim>\<open>Alice\<close> and
  \<^verbatim>\<open>alice\<close> differ only in case, the collection holds \<^verbatim>\<open>alice\<close>, and the lookup of
  \<^verbatim>\<open>Alice\<close> finds nothing, so the client login of \<^verbatim>\<open>Alice\<close> is answered 401.
\<close>

theorem username_lookup_counterexample:
  "toLowerCase ''Alice'' = toLowerCase ''alice''
   \<and> getUserByUsername [alice_monthly] ''alice'' = Some alice_monthly
   \<and> getUserByUsername [alice_monthly] ''Alice'' = None
   \<and> fst (login [alice_monthly] (Some ''alice'') (Some ''secret1'') (Some ''HW-1'') 5000)
       = json_reply 200 True ''Login successful''
   \<and> login [alice_monthly] (Some ''Alice'') (Some ''secret1'') (Some ''HW-1'') 5000
       = (json_reply 401 False ''Invalid credentials'', [alice_monthly])"
  by (simp add: lower_Alice getUserByUsername_def login_def truthy_def
      is_active_def updateUser_def getUserById_def sample_defs)

text \<open>
  Claim C7, as the code has it. Every lookup of the account repository is an exact
  match: the lookup by username returns an account of the collection whose stored
  username is the requested string itself, and nothing when no account has it; the
  lookups by document id and by external customer id do the same on their fields.
\<close>

theorem lookups_are_exact_match:
  "(case getUserByUsername db name of
      None \<Rightarrow> Some name \<notin> username ` set db
    | Some u \<Rightarrow> u \<in> set db \<and> username u = Some name)
   \<and> (case getUserById db userId of
      None \<Rightarrow> userId \<notin> uid ` set db
    | Some u \<Rightarrow> u \<in> set db \<and> uid u = userId)
   \<and> (case findByCustomerId db customerId of
      None \<Rightarrow> Some customerId \<notin> (\<lambda>u. Option.bind (subscription u) stripeCustomerId) ` set db
    | Some u \<Rightarrow> u \<in> set db \<and> Option.bind (subscription u) stripeCustomerId = Some customerId)"
proof -
  have 1: "(case getUserByUsername db name of
      None \<Rightarrow> Some name \<notin> username ` set db
    | Some u \<Rightarrow> u \<in> set db \<and> username u = Some name)"
    by (auto simp: getUserByUsername_def find_None_iff find_Some_iff split: option.splits)
  have 2: "(case getUserById db userId of
      None \<Rightarrow> userId \<notin> uid ` set db
    | Some u \<Rightarrow> u \<in> set db \<and> uid u = userId)"
    by (auto simp: getUserById_def find_None_iff find_Some_iff split: option.splits)
  have 3: "(case findByCustomerId db customerId of
      None \<Rightarrow> Some customerId \<notin> (\<lambda>u. Option.bind (subscription u) stripeCustomerId) ` set db
    | Some u \<Rightarrow> u \<in> set db \<and> Option.bind (subscription u) stripeCustomerId = Some customerId)"
  proof -
    have "findByCustomerId db customerId
        = find (\<lambda>u. Option.bind (subscription u) stripeCustomerId = Some customerId) db"
      unfolding findByCustomerId_def by (rule find_cong) (auto split: option.splits)
    then show ?thesis
      by (auto simp: find_None_iff find_Some_iff split: option.splits)
  qed
  from 1 2 3 show ?thesis by simp
qed

text \<open>
  \<^verbatim>\<open>alice\<close> and \<^verbatim>\<open>Alice\<close> are two accounts: signup lets the second one in, and each
  lookup returns its own.
\<close>

theorem lookups_are_exact_match_witness:
  "getUserByUsername [alice, createUser ''u9'' ''Alice'' ''secret9'' 1500] ''alice'' = Some alice
   \<and> getUserByUsername [alice, createUser ''u9'' ''Alice'' ''secret9'' 1500] ''Alice''
       = Some (createUser ''u9'' ''Alice'' ''secret9'' 1500)
   \<and> snd (signup [alice] (Some ''Alice'') (Some ''secret9'') ''u9'' 1500)
       = [alice, createUser ''u9'' ''Alice'' ''secret9'' 1500]
   \<and> getUserByUsername [alice] ''ALICE'' = None"
  using lookups_are_exact_match [where db = "[alice]" and name = "''ALICE''"]
  by (simp add: getUserByUsername_def signup_def truthy_def sample_defs)

section \<open>A fresh account\<close>



















lemma username_createUser [simp]: "username (createUser newId name pw now) = Some name"
  by (simp add: createUser_def)









section \<open>Cancelling a subscription\<close>

text \<open>
  The first revision refuses to cancel a one-time purchase before it looks at the
  subscription id.
\<close>

lemma cancel_subscription_js_lifetime:
  assumes "find (\<lambda>u. fu_id u = userId) users = Some acct"
    and "fu_subscription acct = Some s"
    and "fs_mode s = Some ''payment'' \<or> fs_package s = Some ''lifetime''"
  shows "cancel_subscription_js api users (Some userId)
     = (json_reply 200 False
          ''Lifetime subscriptions cannot be cancelled. This is a one-time payment.'', users)"
  using assms by (auto simp: cancel_subscription_js_def)

text \<open>
  The route of part\_001 has no such check: it refuses an account without a
  subscription id, and cancels every account that has one.
\<close>

lemma cancel_subscription_without_id:
  assumes "getUserById db userId = Some acct" and "userId \<noteq> []"
    and "\<not> truthy (Option.bind (subscription acct) stripeSubscriptionId)"
  shows "cancel_subscription api db (Some userId) now
     = (json_reply 400 False ''No active subscription to cancel'', db)"
  using assms by (auto simp: cancel_subscription_def truthy_def split: option.splits)

lemma cancel_subscription_recurring:
  assumes "getUserById db userId = Some acct" and "userId \<noteq> []"
    and "subscription acct = Some s"
    and "stripeSubscriptionId s = Some subscriptionId" and "subscriptionId \<noteq> []"
    and "subscriptions_update api subscriptionId"
  shows "fst (cancel_subscription api db (Some userId) now)
       = json_reply 200 True
           ''Subscription cancelled. Access will continue until the end of the billing period.''
     \<and> getUserById (snd (cancel_subscription api db (Some userId) now)) userId
       = Some (acct\<lparr>subscription := Some (s\<lparr>status := Some ''cancelled'',
                                              cancelledAt := Some now\<rparr>)\<rparr>)"
proof -
  let ?f = "update_subscription (\<lambda>s. s\<lparr>status := Some ''cancelled'', cancelledAt := Some now\<rparr>)"
  from assms(1) have i: "uid acct = userId"
    by (auto simp: getUserById_def find_Some_iff)
  obtain db' where upd: "updateUser db userId ?f = Inr db'"
    and after: "getUserById db' userId = Some (?f acct)"
    using updateUser_found [OF assms(1), of ?f] by (auto simp: update_subscription_def)
  have "cancel_subscription api db (Some userId) now
      = (json_reply 200 True
           ''Subscription cancelled. Access will continue until the end of the billing period.'',
         db')"
    using assms upd i by (simp add: cancel_subscription_def)
  with after assms(3) show ?thesis by (simp add: update_subscription_def)
qed

text \<open>
  Claim C4 at an account the handlers produce. \<^verbatim>\<open>alice\<close> buys the monthly plan, then
  the lifetime plan; the checkout handler of part\_001 keeps the subscription id of the
  monthly plan. Her package is now \<^verbatim>\<open>lifetime\<close>, and the cancel route of part\_001
  answers 200 and stores the status \<^verbatim>\<open>cancelled\<close>, where the claim has the route fail
  and leave the subscription unchanged.
\<close>

theorem cancel_lifetime_after_monthly:
  "handleCheckoutSessionCompleted sample_api [alice] (sample_session ''monthly'') 2000
     = Inr [alice_monthly]
   \<and> handleCheckoutSessionCompleted sample_api [alice_monthly] (sample_session ''lifetime'') 3000
     = Inr [alice_upgraded]
   \<and> map_option package (subscription alice_upgraded) = Some (Some ''lifetime'')
   \<and> map_option stripeSubscriptionId (subscription alice_upgraded) = Some (Some ''sub_1'')
   \<and> fst (cancel_subscription sample_api [alice_upgraded] (Some ''u1'') 4000)
     = json_reply 200 True
         ''Subscription cancelled. Access will continue until the end of the billing period.''
   \<and> map (map_option status \<circ> subscription)
         (snd (cancel_subscription sample_api [alice_upgraded] (Some ''u1'') 4000))
     = [Some (Some ''cancelled'')]
   \<and> map (map_option cancelledAt \<circ> subscription)
         (snd (cancel_subscription sample_api [alice_upgraded] (Some ''u1'') 4000))
     = [Some (Some 4000)]"
  by (simp add: handleCheckoutSessionCompleted_def sample_session_def truthy_def
      updateUser_def getUserById_def update_subscription_def checkout_updates_def
      sample_api_def alice_upgraded_def cancel_subscription_def sample_defs)

end
